theory Spec2Isabelle
  imports Complex_Main
begin

section \<open>Numbers and strings of the host language\<close>

text \<open>
  The sources are TypeScript. A finite JavaScript number is modelled as a \<^typ>\<open>real\<close>:
  rounding, overflow and the infinities of IEEE doubles are not modelled. Where the
  source can hold \<open>null\<close> or \<open>undefined\<close> in place of a value the model uses an
  \<^typ>\<open>'a option\<close>, and where it can hold \<open>NaN\<close> the type \<open>jsnum\<close> below.
  Strings are \<^typ>\<open>string\<close>; the identifiers and ledger fields the programs handle are
  ASCII.
\<close>

section \<open>contrarian/detectlast.ts\<close>

datatype side = buy | sell

text \<open>One entry of \<open>meta.preTokenBalances\<close> / \<open>meta.postTokenBalances\<close>; \<open>uiAmount\<close> is
  \<open>number | null\<close>.\<close>

record TokenBalance =
  owner :: string
  mint :: string
  uiAmount :: "real option"

record TxData =
  preTokenBalances :: "TokenBalance list"
  postTokenBalances :: "TokenBalance list"

record TradeResult =
  side :: "side option"
  swappedSOLAmount :: real

record TradeState =
  lastTradeDirection :: "side option"
  lastTradeSizeInSOL :: real
  lastTradeTimestamp :: int

definition OPPOSITE_TRADE_PERCENTAGE :: real where
  "OPPOSITE_TRADE_PERCENTAGE = 0.1"

definition WSOL_ADDRESS :: string where
  "WSOL_ADDRESS = ''So11111111111111111111111111111111111111112''"

definition RAYDIUM_AUTHORITY :: string where
  "RAYDIUM_AUTHORITY = ''5Q544fKrFoe6tsEbD7S8FxcJPMeVpkEgPWjCzGw3ZNzo''"

text \<open>\<open>ToNumber\<close> on \<open>number | null\<close>, as the comparisons and the subtraction of
  \<open>detectLatestTrade\<close> apply it: \<open>null\<close> is 0.\<close>

definition toNumber :: "real option \<Rightarrow> real" where
  "toNumber v = (case v of None \<Rightarrow> 0 | Some x \<Rightarrow> x)"

text \<open>
  The two \<open>for ... of\<close> loops of \<open>detectLatestTrade\<close> have the same body; \<open>poolScan\<close>
  is that loop, on the pair \<open>(poolSOL, poolToken)\<close> of loop variables. The \<open>break\<close> test
  is the strict \<open>!== 0\<close>, which \<open>null\<close> passes.
\<close>

fun poolScan :: "string \<Rightarrow> TokenBalance list \<Rightarrow> real option \<times> real option
    \<Rightarrow> real option \<times> real option" where
  "poolScan targetTokenMint [] (poolSOL, poolToken) = (poolSOL, poolToken)"
| "poolScan targetTokenMint (account # rest) (poolSOL, poolToken) =
     (if poolSOL \<noteq> Some 0 \<and> poolToken \<noteq> Some 0 then (poolSOL, poolToken)
      else
        let poolSOL' =
              (if owner account = RAYDIUM_AUTHORITY \<and> mint account = WSOL_ADDRESS
               then uiAmount account else poolSOL);
            poolToken' =
              (if owner account = RAYDIUM_AUTHORITY \<and> mint account = targetTokenMint
               then uiAmount account else poolToken)
        in poolScan targetTokenMint rest (poolSOL', poolToken'))"

definition detectLatestTrade :: "TxData \<Rightarrow> string \<Rightarrow> TradeResult" where
  "detectLatestTrade data targetTokenMint =
     (let (prePoolSOL, prePoolToken) =
            poolScan targetTokenMint (preTokenBalances data) (Some 0, Some 0);
          (postPoolSOL, postPoolToken) =
            poolScan targetTokenMint (postTokenBalances data) (Some 0, Some 0)
      in if toNumber postPoolSOL > toNumber prePoolSOL
         then \<lparr>side = Some buy, swappedSOLAmount = toNumber postPoolSOL - toNumber prePoolSOL\<rparr>
         else if toNumber postPoolSOL < toNumber prePoolSOL
         then \<lparr>side = Some sell, swappedSOLAmount = toNumber prePoolSOL - toNumber postPoolSOL\<rparr>
         else \<lparr>side = None, swappedSOLAmount = 0\<rparr>)"

text \<open>
  The execution gateway (\<open>buy\<close> and \<open>sell\<close> of the swap helpers) is outside the
  repository's core: an order is the call made, and the gateway is a parameter that says
  whether the call resolves (\<open>True\<close>) or throws.
\<close>

record order =
  orderSide :: side
  orderToken :: string
  orderSizeInSOL :: real
  orderSlippage :: nat

record engine =
  tradeStates :: "string \<rightharpoonup> TradeState"
  placed :: "order list"

datatype engine_error = GatewayThrew order

text \<open>
  \<open>handleTradeDetection\<close>, with \<open>Date.now()\<close> as the parameter \<open>currentTimestamp\<close>.
  A gateway call that throws leaves the function by the exception, before the state is
  written.
\<close>

definition handleTradeDetection ::
    "(order \<Rightarrow> bool) \<Rightarrow> int \<Rightarrow> string \<Rightarrow> TxData \<Rightarrow> engine \<Rightarrow> engine_error + engine" where
  "handleTradeDetection gateway currentTimestamp tokenAddress data e =
     (let lastState = tradeStates e tokenAddress;
          tradeResult = detectLatestTrade data tokenAddress;
          tradeDirection = side tradeResult;
          swappedSOLAmount = swappedSOLAmount tradeResult
      in case tradeDirection of
           None \<Rightarrow> Inr e
         | Some d \<Rightarrow>
             if (case lastState of None \<Rightarrow> True
                 | Some st \<Rightarrow> currentTimestamp - lastTradeTimestamp st > 1000)
             then
               let oppositeSizeInSOL = swappedSOLAmount * OPPOSITE_TRADE_PERCENTAGE;
                   ord = \<lparr>orderSide = (case d of buy \<Rightarrow> sell | sell \<Rightarrow> buy),
                          orderToken = tokenAddress,
                          orderSizeInSOL = oppositeSizeInSOL,
                          orderSlippage = 1\<rparr>
               in if gateway ord
                  then Inr (e\<lparr>tradeStates := (tradeStates e)(tokenAddress \<mapsto>
                               \<lparr>lastTradeDirection = tradeDirection,
                                lastTradeSizeInSOL = oppositeSizeInSOL,
                                lastTradeTimestamp = currentTimestamp\<rparr>),
                             placed := placed e @ [ord]\<rparr>)
                  else Inl (GatewayThrew ord)
             else Inr e)"


subsection \<open>Auxiliary notions for the pool scan\<close>

text \<open>The loop's exit test and the effect of one iteration on the two loop variables.\<close>

definition poolFound :: "real option \<times> real option \<Rightarrow> bool" where
  "poolFound st = (fst st \<noteq> Some 0 \<and> snd st \<noteq> Some 0)"

definition poolUpdate :: "string \<Rightarrow> TokenBalance \<Rightarrow> real option \<times> real option
    \<Rightarrow> real option \<times> real option" where
  "poolUpdate t account st =
     ((if owner account = RAYDIUM_AUTHORITY \<and> mint account = WSOL_ADDRESS
       then uiAmount account else fst st),
      (if owner account = RAYDIUM_AUTHORITY \<and> mint account = t
       then uiAmount account else snd st))"

definition isPoolSOL :: "TokenBalance \<Rightarrow> bool" where
  "isPoolSOL a = (owner a = RAYDIUM_AUTHORITY \<and> mint a = WSOL_ADDRESS)"

definition isPoolToken :: "string \<Rightarrow> TokenBalance \<Rightarrow> bool" where
  "isPoolToken t a = (owner a = RAYDIUM_AUTHORITY \<and> mint a = t)"

text \<open>The values the comparison of \<open>detectLatestTrade\<close> reads: \<open>prePoolSOL\<close> and
  \<open>postPoolSOL\<close> after the two loops, as numbers.\<close>

definition prePoolNative :: "TxData \<Rightarrow> string \<Rightarrow> real" where
  "prePoolNative data targetTokenMint =
     toNumber (fst (poolScan targetTokenMint (preTokenBalances data) (Some 0, Some 0)))"

definition postPoolNative :: "TxData \<Rightarrow> string \<Rightarrow> real" where
  "postPoolNative data targetTokenMint =
     toNumber (fst (poolScan targetTokenMint (postTokenBalances data) (Some 0, Some 0)))"

text \<open>
  The specification's reading of the scan, in its own words: for each quantity the first
  matching entry in iteration order is taken (and the initial 0 when there is none).
\<close>

definition spec_firstMatchAmount ::
    "(TokenBalance \<Rightarrow> bool) \<Rightarrow> TokenBalance list \<Rightarrow> real option" where
  "spec_firstMatchAmount p xs = (case find p xs of None \<Rightarrow> Some 0 | Some a \<Rightarrow> uiAmount a)"

definition spec_firstMatchWins :: "string \<Rightarrow> TokenBalance list \<Rightarrow> bool" where
  "spec_firstMatchWins t xs =
     (poolScan t xs (Some 0, Some 0) =
        (spec_firstMatchAmount isPoolSOL xs, spec_firstMatchAmount (isPoolToken t) xs))"

subsection \<open>contrarian/test-detect-trade.ts and further inputs\<close>

text \<open>The two transactions of the test program.\<close>

definition buyTransactionData :: TxData where
  "buyTransactionData =
     \<lparr>preTokenBalances =
        [\<lparr>owner = ''5Q544fKrFoe6tsEbD7S8FxcJPMeVpkEgPWjCzGw3ZNzo'',
          mint = ''So11111111111111111111111111111111111111112'', uiAmount = Some 100\<rparr>,
         \<lparr>owner = ''5Q544fKrFoe6tsEbD7S8FxcJPMeVpkEgPWjCzGw3ZNzo'',
          mint = ''TEST_TOKEN_ADDRESS'', uiAmount = Some 1000\<rparr>],
      postTokenBalances =
        [\<lparr>owner = ''5Q544fKrFoe6tsEbD7S8FxcJPMeVpkEgPWjCzGw3ZNzo'',
          mint = ''So11111111111111111111111111111111111111112'', uiAmount = Some 101\<rparr>,
         \<lparr>owner = ''5Q544fKrFoe6tsEbD7S8FxcJPMeVpkEgPWjCzGw3ZNzo'',
          mint = ''TEST_TOKEN_ADDRESS'', uiAmount = Some 990\<rparr>]\<rparr>"

definition sellTransactionData :: TxData where
  "sellTransactionData =
     \<lparr>preTokenBalances =
        [\<lparr>owner = ''5Q544fKrFoe6tsEbD7S8FxcJPMeVpkEgPWjCzGw3ZNzo'',
          mint = ''So11111111111111111111111111111111111111112'', uiAmount = Some 100\<rparr>,
         \<lparr>owner = ''5Q544fKrFoe6tsEbD7S8FxcJPMeVpkEgPWjCzGw3ZNzo'',
          mint = ''TEST_TOKEN_ADDRESS'', uiAmount = Some 1000\<rparr>],
      postTokenBalances =
        [\<lparr>owner = ''5Q544fKrFoe6tsEbD7S8FxcJPMeVpkEgPWjCzGw3ZNzo'',
          mint = ''So11111111111111111111111111111111111111112'', uiAmount = Some 99\<rparr>,
         \<lparr>owner = ''5Q544fKrFoe6tsEbD7S8FxcJPMeVpkEgPWjCzGw3ZNzo'',
          mint = ''TEST_TOKEN_ADDRESS'', uiAmount = Some 1010\<rparr>]\<rparr>"

text \<open>A pre-balance list with two pool entries for the native mint before the token entry.\<close>

definition duplicateBalances :: "TokenBalance list" where
  "duplicateBalances =
     [\<lparr>owner = RAYDIUM_AUTHORITY, mint = WSOL_ADDRESS, uiAmount = Some 100\<rparr>,
      \<lparr>owner = RAYDIUM_AUTHORITY, mint = WSOL_ADDRESS, uiAmount = Some 200\<rparr>,
      \<lparr>owner = RAYDIUM_AUTHORITY, mint = ''TEST_TOKEN_ADDRESS'', uiAmount = Some 1000\<rparr>]"

text \<open>Inputs for the examples: single balance entries, a detected buy of magnitude 10,
  a gateway whose calls all resolve, and engine states.\<close>

definition lateBalance :: TokenBalance where
  "lateBalance = \<lparr>owner = RAYDIUM_AUTHORITY, mint = WSOL_ADDRESS, uiAmount = Some 200\<rparr>"

definition tokenBalance :: TokenBalance where
  "tokenBalance =
     \<lparr>owner = RAYDIUM_AUTHORITY, mint = ''TEST_TOKEN_ADDRESS'', uiAmount = Some 1000\<rparr>"

definition nativeBalance :: TokenBalance where
  "nativeBalance = \<lparr>owner = RAYDIUM_AUTHORITY, mint = WSOL_ADDRESS, uiAmount = Some 100\<rparr>"

definition tenBuyData :: TxData where
  "tenBuyData =
     \<lparr>preTokenBalances =
        [\<lparr>owner = RAYDIUM_AUTHORITY, mint = WSOL_ADDRESS, uiAmount = Some 100\<rparr>,
         \<lparr>owner = RAYDIUM_AUTHORITY, mint = ''TEST_TOKEN_ADDRESS'', uiAmount = Some 1000\<rparr>],
      postTokenBalances =
        [\<lparr>owner = RAYDIUM_AUTHORITY, mint = WSOL_ADDRESS, uiAmount = Some 110\<rparr>,
         \<lparr>owner = RAYDIUM_AUTHORITY, mint = ''TEST_TOKEN_ADDRESS'', uiAmount = Some 900\<rparr>]\<rparr>"

definition gatewayResolves :: "order \<Rightarrow> bool" where
  "gatewayResolves ord = True"

definition noState :: engine where
  "noState = \<lparr>tradeStates = Map.empty, placed = []\<rparr>"

definition afterFirst :: engine where
  "afterFirst =
     \<lparr>tradeStates = [''TEST_TOKEN_ADDRESS'' \<mapsto>
        \<lparr>lastTradeDirection = Some buy, lastTradeSizeInSOL = 1, lastTradeTimestamp = 5000\<rparr>],
      placed = [\<lparr>orderSide = sell, orderToken = ''TEST_TOKEN_ADDRESS'',
                 orderSizeInSOL = 1, orderSlippage = 1\<rparr>]\<rparr>"

text \<open>The order \<open>handleTradeDetection\<close> sends for a detected direction and magnitude, and
  the trade state a result holds for a token.\<close>

definition oppositeOrder :: "side \<Rightarrow> string \<Rightarrow> real \<Rightarrow> order" where
  "oppositeOrder d tokenAddress m =
     \<lparr>orderSide = (case d of buy \<Rightarrow> sell | sell \<Rightarrow> buy), orderToken = tokenAddress,
      orderSizeInSOL = m * OPPOSITE_TRADE_PERCENTAGE, orderSlippage = 1\<rparr>"

definition stateOf :: "engine_error + engine \<Rightarrow> string \<Rightarrow> TradeState option" where
  "stateOf r tokenAddress = (case r of Inl err \<Rightarrow> None | Inr e \<Rightarrow> tradeStates e tokenAddress)"

section \<open>order_watcher.ts: the retry wrapper\<close>

text \<open>The file is the one whose usage line reads \<open>ts-node order_watcher.ts <TOKEN_ADDRESS>\<close>.\<close>

definition MAX_RETRIES :: nat where
  "MAX_RETRIES = 5"

definition BASE_DELAY :: nat where
  "BASE_DELAY = 2000"

text \<open>\<open>haystack.includes(needle)\<close> of JavaScript strings.\<close>

fun str_includes :: "string \<Rightarrow> string \<Rightarrow> bool" where
  "str_includes [] needle = (needle = [])"
| "str_includes (c # cs) needle = (take (length needle) (c # cs) = needle \<or> str_includes cs needle)"

text \<open>
  The operation passed to \<open>fetchWithRetry\<close> is a remote call. It is modelled by the
  outcomes of its successive invocations: \<open>operation n\<close> is what the call made after
  \<open>n\<close> earlier ones does, a resolved value or a thrown error with its \<open>message\<close>
  (\<open>undefined\<close> is \<open>None\<close>). Sleeping and logging are recorded as events, in order.
\<close>

datatype 'a outcome = Resolves 'a | Rejects "string option"

datatype retry_event =
    Attempt nat
  | LogRateLimited string nat nat
  | LogWaiting nat
  | Sleep nat

datatype retry_error = Rethrown "string option" | FailedAfterRetries nat string

text \<open>The test \<open>rpcError.message?.includes('429')\<close>.\<close>

definition isRateLimit :: "string option \<Rightarrow> bool" where
  "isRateLimit message = (case message of None \<Rightarrow> False | Some m \<Rightarrow> str_includes m ''429'')"

definition exponentialBackoff :: "nat \<Rightarrow> retry_event list" where
  "exponentialBackoff retryCount =
     (let delay = BASE_DELAY * 2 ^ retryCount in [LogWaiting delay, Sleep delay])"

text \<open>The \<open>for\<close> loop of \<open>fetchWithRetry\<close> from index \<open>i\<close> on; the function starts it at 0.\<close>

function fetchWithRetry_from ::
    "nat \<Rightarrow> (nat \<Rightarrow> 'a outcome) \<Rightarrow> string \<Rightarrow> retry_event list \<times> (retry_error + 'a)" where
  "fetchWithRetry_from i operation context =
     (if i < MAX_RETRIES then
        (case operation i of
           Resolves v \<Rightarrow> ([Attempt i], Inr v)
         | Rejects message \<Rightarrow>
             if isRateLimit message then
               (let (events, r) = fetchWithRetry_from (i + 1) operation context
                in (Attempt i # LogRateLimited context (i + 1) MAX_RETRIES #
                      exponentialBackoff i @ events, r))
             else ([Attempt i], Inl (Rethrown message)))
      else ([], Inl (FailedAfterRetries MAX_RETRIES context)))"
  by pat_completeness auto

termination
  by (relation "measure (\<lambda>(i, operation, context). MAX_RETRIES - i)") auto

declare fetchWithRetry_from.simps [simp del]

definition fetchWithRetry ::
    "(nat \<Rightarrow> 'a outcome) \<Rightarrow> string \<Rightarrow> retry_event list \<times> (retry_error + 'a)" where
  "fetchWithRetry operation context = fetchWithRetry_from 0 operation context"

text \<open>The delays slept and the attempts made, read off an event list; the events of one
  rate-limited round; an outcome that is a rate-limited failure.\<close>

fun sleepsOf :: "retry_event list \<Rightarrow> nat list" where
  "sleepsOf [] = []"
| "sleepsOf (Sleep d # es) = d # sleepsOf es"
| "sleepsOf (e # es) = sleepsOf es"

fun attemptsOf :: "retry_event list \<Rightarrow> nat list" where
  "attemptsOf [] = []"
| "attemptsOf (Attempt i # es) = i # attemptsOf es"
| "attemptsOf (e # es) = attemptsOf es"

definition failsRateLimited :: "'a outcome \<Rightarrow> bool" where
  "failsRateLimited out = (case out of Resolves v \<Rightarrow> False | Rejects message \<Rightarrow> isRateLimit message)"

definition retryRound :: "string \<Rightarrow> nat \<Rightarrow> retry_event list" where
  "retryRound ctx i =
     Attempt i # LogRateLimited ctx (i + 1) MAX_RETRIES # exponentialBackoff i"

text \<open>Three operations: two rate-limited failures and then a value; one rate-limited failure
  and then another error; rate-limited failures only.\<close>

definition failsTwiceThenResolves :: "nat \<Rightarrow> nat outcome" where
  "failsTwiceThenResolves n =
     (if n < 2 then Rejects (Some ''429 Too Many Requests'') else Resolves 7)"

definition failsOnceThenBreaks :: "nat \<Rightarrow> nat outcome" where
  "failsOnceThenBreaks n =
     (if n < 1 then Rejects (Some ''429 Too Many Requests'') else Rejects (Some ''fetch failed''))"

definition alwaysRateLimited :: "nat \<Rightarrow> nat outcome" where
  "alwaysRateLimited n = Rejects (Some ''Server responded with 429'')"

section \<open>order_watcher.ts: the trade ledger file\<close>

text \<open>
  \<open>s.split(sep)\<close> for a separator of one character, \<open>parts.join(sep)\<close> on strings, and
  the test \<open>line.trim() !== ''\<close>, with the ASCII white space characters.
\<close>

definition newline :: char where
  "newline = CHR 0x0A"

definition comma :: char where
  "comma = CHR '',''"

fun split :: "char \<Rightarrow> string \<Rightarrow> string list" where
  "split sep [] = [[]]"
| "split sep (c # cs) =
     (if c = sep then [] # split sep cs
      else (case split sep cs of [] \<Rightarrow> [[c]] | w # ws \<Rightarrow> (c # w) # ws))"

fun join :: "string \<Rightarrow> string list \<Rightarrow> string" where
  "join sep [] = []"
| "join sep [x] = x"
| "join sep (x # y # ys) = x @ sep @ join sep (y # ys)"

definition isWhiteSpace :: "char \<Rightarrow> bool" where
  "isWhiteSpace c = (c \<in> set [CHR 0x09, CHR 0x0A, CHR 0x0B, CHR 0x0C, CHR 0x0D, CHR '' ''])"

definition trimIsEmpty :: "string \<Rightarrow> bool" where
  "trimIsEmpty line = list_all isWhiteSpace line"

text \<open>An array read that may be out of range, as the destructuring
  \<open>const [timestamp, type, solAmount, tokenAmount, txHash] = line.split(',')\<close> makes:
  a missing element is \<open>undefined\<close>.\<close>

definition nthOpt :: "'a list \<Rightarrow> nat \<Rightarrow> 'a option" where
  "nthOpt xs i = (if i < length xs then Some (xs ! i) else None)"

text \<open>
  A trade record. The interface \<open>TradeInfo\<close> declares five strings; a record read back
  from a line with fewer than five fields holds \<open>undefined\<close> in the missing ones. The
  market maker keeps the same record with \<open>solAmount\<close> parsed to a number, hence the type
  parameter.
\<close>

record 'n TradeInfo =
  timestamp :: "string option"
  type :: "string option"
  solAmount :: 'n
  tokenAmount :: "string option"
  txHash :: "string option"

text \<open>\<open>Array.prototype.join\<close> writes an \<open>undefined\<close> element as the empty string.\<close>

definition fieldText :: "string option \<Rightarrow> string" where
  "fieldText f = (case f of None \<Rightarrow> [] | Some s \<Rightarrow> s)"

definition headers :: "string list" where
  "headers = [''TIMESTAMP'', ''TYPE'', ''SOL_AMOUNT'', ''TOKEN_AMOUNT'', ''TX_HASH'']"

definition csvLine :: "string option TradeInfo \<Rightarrow> string" where
  "csvLine trade =
     join '','' (map fieldText
       [timestamp trade, type trade, solAmount trade, tokenAmount trade, txHash trade])"

definition csvContent :: "string option TradeInfo list \<Rightarrow> string" where
  "csvContent trades = join [newline] (join '','' headers # map csvLine trades)"

definition parseLedgerLine :: "string \<Rightarrow> string option TradeInfo" where
  "parseLedgerLine line =
     (let fields = split comma line
      in \<lparr>timestamp = nthOpt fields 0, type = nthOpt fields 1, solAmount = nthOpt fields 2,
          tokenAmount = nthOpt fields 3, txHash = nthOpt fields 4\<rparr>)"

text \<open>The existing records, as the append branch reads them: split into lines, drop the
  first, drop blank lines, destructure each.\<close>

definition readExistingTrades :: "string \<Rightarrow> string option TradeInfo list" where
  "readExistingTrades content =
     (let lines = tl (split newline content)
      in map parseLedgerLine (filter (\<lambda>line. \<not> trimIsEmpty line) lines))"

definition tradesFileName :: "string \<Rightarrow> string" where
  "tradesFileName mintAddress = mintAddress @ ''_trades.csv''"

text \<open>
  \<open>writeTradestoCSV\<close>, on a file system that maps a file name to its content. The flag
  \<open>isInitialFetch\<close> is a module variable of the source and a parameter here. The source
  catches and logs a failing file operation; the file system of the model does not fail.
\<close>

definition writeTradestoCSV ::
    "bool \<Rightarrow> string \<Rightarrow> string option TradeInfo list \<Rightarrow> (string \<rightharpoonup> string) \<Rightarrow> (string \<rightharpoonup> string)" where
  "writeTradestoCSV isInitialFetch mintAddress trades files =
     (let fileName = tradesFileName mintAddress
      in if isInitialFetch then files(fileName \<mapsto> csvContent trades)
         else
           let existingTrades =
                 (case files fileName of None \<Rightarrow> []
                  | Some content \<Rightarrow> readExistingTrades content);
               allTrades = existingTrades @ trades
           in files(fileName \<mapsto> csvContent allTrades))"

text \<open>A record as \<open>processTransaction\<close> produces it has five fields with neither a comma nor
  a line break (an ISO timestamp, BUY or SELL, two printed numbers and a signature).
  \<open>appendedLines\<close> is the text of new records, each on a line of its own.\<close>

definition plainField :: "string option \<Rightarrow> bool" where
  "plainField f = (case f of None \<Rightarrow> False | Some s \<Rightarrow> comma \<notin> set s \<and> newline \<notin> set s)"

definition wellFormedTrade :: "string option TradeInfo \<Rightarrow> bool" where
  "wellFormedTrade trade =
     (plainField (timestamp trade) \<and> plainField (type trade) \<and> plainField (solAmount trade) \<and>
      plainField (tokenAmount trade) \<and> plainField (txHash trade))"

definition appendedLines :: "string option TradeInfo list \<Rightarrow> string" where
  "appendedLines trades = concat (map (\<lambda>trade. newline # csvLine trade) trades)"

text \<open>A ledger with one record, and a second record to append.\<close>

definition firstTrade :: "string option TradeInfo" where
  "firstTrade =
     \<lparr>timestamp = Some ''2024-05-01T10:00:00.000Z'', type = Some ''BUY'',
      solAmount = Some ''0.5'', tokenAmount = Some ''1200.25'', txHash = Some ''5hJk2abcXYZ''\<rparr>"

definition secondTrade :: "string option TradeInfo" where
  "secondTrade =
     \<lparr>timestamp = Some ''2024-05-01T10:00:05.000Z'', type = Some ''SELL'',
      solAmount = Some ''1.25'', tokenAmount = Some ''3000'', txHash = Some ''3QwErTy9876''\<rparr>"

definition ledgerFiles :: "string \<rightharpoonup> string" where
  "ledgerFiles = [''TOKEN_trades.csv'' \<mapsto> csvContent [firstTrade]]"

section \<open>market_maker.ts\<close>

text \<open>
  A number that may be \<open>NaN\<close>: \<open>parseFloat\<close> of a malformed field and \<open>Number(input) / 100\<close>
  of a malformed answer are. Arithmetic propagates \<open>NaN\<close>, every comparison with it is
  false, and \<open>BigInt(Math.floor(NaN))\<close> throws a \<open>RangeError\<close>.
\<close>

datatype jsnum = NaN | Num real

definition jsNeg :: "jsnum \<Rightarrow> jsnum" where
  "jsNeg a = (case a of NaN \<Rightarrow> NaN | Num x \<Rightarrow> Num (- x))"

definition jsAdd :: "jsnum \<Rightarrow> jsnum \<Rightarrow> jsnum" where
  "jsAdd a b = (case (a, b) of (Num x, Num y) \<Rightarrow> Num (x + y) | _ \<Rightarrow> NaN)"

definition jsMul :: "jsnum \<Rightarrow> jsnum \<Rightarrow> jsnum" where
  "jsMul a b = (case (a, b) of (Num x, Num y) \<Rightarrow> Num (x * y) | _ \<Rightarrow> NaN)"

definition jsAbs :: "jsnum \<Rightarrow> jsnum" where
  "jsAbs a = (case a of NaN \<Rightarrow> NaN | Num x \<Rightarrow> Num \<bar>x\<bar>)"

definition jsGreater :: "jsnum \<Rightarrow> jsnum \<Rightarrow> bool" where
  "jsGreater a b = (case (a, b) of (Num x, Num y) \<Rightarrow> x > y | _ \<Rightarrow> False)"

definition floorToBigInt :: "jsnum \<Rightarrow> int option" where
  "floorToBigInt a = (case a of NaN \<Rightarrow> None | Num x \<Rightarrow> Some \<lfloor>x\<rfloor>)"

definition LAMPORTS_PER_SOL :: real where
  "LAMPORTS_PER_SOL = 1000000000"

text \<open>
  What one run of \<open>watchTradeFile\<close> finds outside the program: the ledger file (absent,
  unreadable, or its content), the two percentages read at start-up, whether
  \<open>new PublicKey(tokenAddress)\<close> succeeds, what \<open>sdk.getBondingCurveAccount\<close> answers, and
  whether a call of \<open>sdk.buy\<close> or \<open>sdk.sell\<close> with the given lamports resolves.
\<close>

datatype ledger_file = NoFile | Unreadable | Content string

datatype curve_answer = CurveFound | CurveAbsent | CurveThrows

datatype sdk_call = SdkBuy int | SdkSell int

datatype mm_exception =
    InvalidPublicKey
  | CurveRequestFailed
  | RangeErrorBigInt
  | OrderFailed sdk_call
  | TypeErrorUndefined
  | ReadFailed

datatype mm_error_log =
    NoTradeHistory
  | BondingCurveNotFound
  | ErrorExecutingTrade bool mm_exception
  | ErrorWatchingTradeFile mm_exception

record mm_env =
  ledgerFile :: ledger_file
  buyPercentage :: jsnum
  sellPercentage :: jsnum
  mintIsValid :: bool
  bondingCurve :: curve_answer
  sdkResolves :: "sdk_call \<Rightarrow> bool"

text \<open>
  The module variables \<open>processedBatches\<close> (a \<open>Set\<close>, kept in insertion order) and
  \<open>isProcessingTrade\<close>, with the calls made to the SDK and the errors logged, in order.
\<close>

record mm_state =
  processedBatches :: "string list"
  isProcessingTrade :: bool
  sdkCalls :: "sdk_call list"
  errorLog :: "mm_error_log list"

text \<open>
  The \<open>try\<close> block of \<open>executeTrade\<close>: the exception it ends with, if any, and the state.
  \<open>executeTrade\<close> adds the early return, the \<open>catch\<close> that logs and the \<open>finally\<close> that
  clears the flag; its first component is the exception that leaves the function.
\<close>

definition executeTrade_try ::
    "mm_env \<Rightarrow> bool \<Rightarrow> jsnum \<Rightarrow> mm_state \<Rightarrow> mm_exception option \<times> mm_state" where
  "executeTrade_try env isBuy amount s =
     (if \<not> mintIsValid env then (Some InvalidPublicKey, s)
      else case bondingCurve env of
          CurveThrows \<Rightarrow> (Some CurveRequestFailed, s)
        | CurveAbsent \<Rightarrow> (None, s\<lparr>errorLog := errorLog s @ [BondingCurveNotFound]\<rparr>)
        | CurveFound \<Rightarrow>
            let percentage = (if isBuy then buyPercentage env else sellPercentage env);
                tradeAmount = jsAbs (jsMul amount percentage)
            in case floorToBigInt (jsMul tradeAmount (Num LAMPORTS_PER_SOL)) of
                 None \<Rightarrow> (Some RangeErrorBigInt, s)
               | Some lamports \<Rightarrow>
                   let call = (if isBuy then SdkBuy lamports else SdkSell lamports);
                       s' = s\<lparr>sdkCalls := sdkCalls s @ [call]\<rparr>
                   in if sdkResolves env call then (None, s')
                      else (Some (OrderFailed call), s'))"

definition executeTrade ::
    "mm_env \<Rightarrow> bool \<Rightarrow> jsnum \<Rightarrow> mm_state \<Rightarrow> mm_exception option \<times> mm_state" where
  "executeTrade env isBuy amount s =
     (if isProcessingTrade s then (None, s)
      else
        let (thrown, s1) = executeTrade_try env isBuy amount (s\<lparr>isProcessingTrade := True\<rparr>);
            s2 = (case thrown of
                    None \<Rightarrow> s1
                  | Some err \<Rightarrow> s1\<lparr>errorLog := errorLog s1 @ [ErrorExecutingTrade isBuy err]\<rparr>)
        in (None, s2\<lparr>isProcessingTrade := False\<rparr>))"

text \<open>
  \<open>parseFloat\<close> is a function of the host language and a parameter of the model, from the
  text of a field to a number; \<open>parseFloat(undefined)\<close> is \<open>NaN\<close>.
\<close>

definition parseFloatOf :: "(string \<Rightarrow> jsnum) \<Rightarrow> string option \<Rightarrow> jsnum" where
  "parseFloatOf parseFloat v = (case v of None \<Rightarrow> NaN | Some text \<Rightarrow> parseFloat text)"

definition parseTradeLine :: "(string \<Rightarrow> jsnum) \<Rightarrow> string \<Rightarrow> jsnum TradeInfo" where
  "parseTradeLine parseFloat line =
     (let fields = split comma line
      in \<lparr>timestamp = nthOpt fields 0, type = nthOpt fields 1,
          solAmount = parseFloatOf parseFloat (nthOpt fields 2),
          tokenAmount = nthOpt fields 3, txHash = nthOpt fields 4\<rparr>)"

text \<open>The array \<open>trades\<close> of \<open>watchTradeFile\<close>, every record of the ledger in file order,
  and \<open>trades.slice(-5)\<close>.\<close>

definition ledgerTradesOf :: "(string \<Rightarrow> jsnum) \<Rightarrow> string \<Rightarrow> jsnum TradeInfo list" where
  "ledgerTradesOf parseFloat content =
     (let lines = tl (split newline content)
      in map (parseTradeLine parseFloat) (filter (\<lambda>line. \<not> trimIsEmpty line) lines))"

definition lastFiveOf :: "(string \<Rightarrow> jsnum) \<Rightarrow> string \<Rightarrow> jsnum TradeInfo list" where
  "lastFiveOf parseFloat content =
     (let trades = ledgerTradesOf parseFloat content
      in drop (length trades - 5) trades)"

text \<open>
  The batch identifier. A template literal prints \<open>undefined\<close> as that word; \<open>.slice\<close> on
  an \<open>undefined\<close> hash throws a \<open>TypeError\<close>. It is read only when the window has five
  trades.
\<close>

definition templateText :: "string option \<Rightarrow> string" where
  "templateText v = (case v of None \<Rightarrow> ''undefined'' | Some s \<Rightarrow> s)"

definition batchIdOf :: "jsnum TradeInfo list \<Rightarrow> mm_exception + string" where
  "batchIdOf lastFiveTrades =
     (case (txHash (lastFiveTrades ! 0), txHash (lastFiveTrades ! 4)) of
        (Some firstHash, Some lastHash) \<Rightarrow>
          Inr (templateText (timestamp (lastFiveTrades ! 0)) @ ''-'' @
               templateText (timestamp (lastFiveTrades ! 4)) @ ''-'' @
               take 8 firstHash @ ''-'' @ take 8 lastHash)
      | _ \<Rightarrow> Inl TypeErrorUndefined)"

text \<open>The body of the net-volume loop, and the loop from 0.\<close>

definition addToNetVolume :: "jsnum \<Rightarrow> jsnum TradeInfo \<Rightarrow> jsnum" where
  "addToNetVolume netVolume trade =
     jsAdd netVolume
       (if type trade = Some ''SELL'' then jsNeg (solAmount trade) else solAmount trade)"

definition netVolumeOf :: "jsnum TradeInfo list \<Rightarrow> jsnum" where
  "netVolumeOf lastFiveTrades = foldl addToNetVolume (Num 0) lastFiveTrades"

text \<open>\<open>Set.add\<close> on the insertion-ordered set, and the trimming
  \<open>new Set(Array.from(processedBatches).slice(-50))\<close> when the size exceeds 100.\<close>

definition setAdd :: "string \<Rightarrow> string list \<Rightarrow> string list" where
  "setAdd x xs = (if x \<in> set xs then xs else xs @ [x])"

definition trimBatches :: "string list \<Rightarrow> string list" where
  "trimBatches batches =
     (if length batches > 100 then drop (length batches - 50) batches else batches)"

text \<open>
  The \<open>try\<close> block of \<open>watchTradeFile\<close> once the file is read, and the function itself.
  A run of the function is modelled from its start to its end, with no other run in
  between; a run that starts while an execution is in flight is a run from a state whose
  flag \<open>isProcessingTrade\<close> is set. The informational log lines are left out.
\<close>

definition watchTradeFile_try ::
    "(string \<Rightarrow> jsnum) \<Rightarrow> mm_env \<Rightarrow> string \<Rightarrow> mm_state
      \<Rightarrow> mm_exception option \<times> mm_state" where
  "watchTradeFile_try parseFloat env content s =
     (let lastFiveTrades = lastFiveOf parseFloat content
      in if length lastFiveTrades < 5 then (None, s)
         else case batchIdOf lastFiveTrades of
             Inl err \<Rightarrow> (Some err, s)
           | Inr batchId \<Rightarrow>
               if batchId \<in> set (processedBatches s) then (None, s)
               else
                 let netVolume = netVolumeOf lastFiveTrades;
                     (thrown, s1) =
                       (if netVolume \<noteq> Num 0
                        then (if jsGreater netVolume (Num 0)
                              then executeTrade env False netVolume s
                              else executeTrade env True (jsAbs netVolume) s)
                        else (None, s))
                 in case thrown of
                      Some err \<Rightarrow> (Some err, s1)
                    | None \<Rightarrow>
                        (None, s1\<lparr>processedBatches :=
                                    trimBatches (setAdd batchId (processedBatches s1))\<rparr>))"

definition watchTradeFile :: "(string \<Rightarrow> jsnum) \<Rightarrow> mm_env \<Rightarrow> mm_state \<Rightarrow> mm_state" where
  "watchTradeFile parseFloat env s =
     (case ledgerFile env of
        NoFile \<Rightarrow> s\<lparr>errorLog := errorLog s @ [NoTradeHistory]\<rparr>
      | Unreadable \<Rightarrow> s\<lparr>errorLog := errorLog s @ [ErrorWatchingTradeFile ReadFailed]\<rparr>
      | Content content \<Rightarrow>
          (case watchTradeFile_try parseFloat env content s of
             (Some err, s') \<Rightarrow> s'\<lparr>errorLog := errorLog s' @ [ErrorWatchingTradeFile err]\<rparr>
           | (None, s') \<Rightarrow> s'))"

text \<open>The state at start-up, and a sequence of timer ticks, each with its own environment.\<close>

definition initialState :: mm_state where
  "initialState =
     \<lparr>processedBatches = [], isProcessingTrade = False, sdkCalls = [], errorLog = []\<rparr>"

fun watchRun :: "(string \<Rightarrow> jsnum) \<Rightarrow> mm_env list \<Rightarrow> mm_state \<Rightarrow> mm_state" where
  "watchRun parseFloat [] s = s"
| "watchRun parseFloat (env # envs) s = watchRun parseFloat envs (watchTradeFile parseFloat env s)"

subsection \<open>Auxiliary notions for the market maker\<close>

text \<open>
  The state after the block \<open>if (netVolume !== 0) ...\<close>; the identifier of the window an
  environment presents, if it has one; the conditions under which \<open>executeTrade\<close> reaches
  the SDK call; the lamports of an order; and the signed amount of a trade.
\<close>

definition counterTrade :: "mm_env \<Rightarrow> jsnum \<Rightarrow> mm_state \<Rightarrow> mm_state" where
  "counterTrade env netVolume s =
     (if netVolume \<noteq> Num 0
      then (if jsGreater netVolume (Num 0)
            then snd (executeTrade env False netVolume s)
            else snd (executeTrade env True (jsAbs netVolume) s))
      else s)"

definition windowId :: "(string \<Rightarrow> jsnum) \<Rightarrow> mm_env \<Rightarrow> string option" where
  "windowId parseFloat env =
     (case ledgerFile env of
        Content content \<Rightarrow>
          (let lastFiveTrades = lastFiveOf parseFloat content
           in if length lastFiveTrades < 5 then None
              else (case batchIdOf lastFiveTrades of Inl err \<Rightarrow> None | Inr batchId \<Rightarrow> Some batchId))
      | _ \<Rightarrow> None)"

definition readyToTrade :: "mm_env \<Rightarrow> mm_state \<Rightarrow> bool" where
  "readyToTrade env s =
     (\<not> isProcessingTrade s \<and> mintIsValid env \<and> bondingCurve env = CurveFound)"

definition lamportsOf :: "real \<Rightarrow> real \<Rightarrow> int" where
  "lamportsOf amount percentage = \<lfloor>\<bar>amount * percentage\<bar> * LAMPORTS_PER_SOL\<rfloor>"

definition amountOf :: "jsnum \<Rightarrow> real" where
  "amountOf a = (case a of NaN \<Rightarrow> 0 | Num x \<Rightarrow> x)"

definition signedAmount :: "jsnum TradeInfo \<Rightarrow> real" where
  "signedAmount trade =
     (if type trade = Some ''SELL'' then - amountOf (solAmount trade)
      else amountOf (solAmount trade))"

text \<open>\<open>recentIn k b xs\<close>: the identifier \<open>b\<close> is among the last \<open>k\<close> of \<open>xs\<close>.\<close>

definition recentIn :: "nat \<Rightarrow> string \<Rightarrow> string list \<Rightarrow> bool" where
  "recentIn k b xs = (b \<in> set (drop (length xs - k) xs))"

subsection \<open>Ledgers and environments for the examples\<close>

text \<open>
  A ledger record with its amount parsed, as the market maker reads it back; records at
  five successive seconds; windows of net volume 0, 4 and -4, a ledger of four records,
  and a window that shares the boundary timestamps and hash prefixes of the first one.
  \<open>parseFloatExample\<close> reads the three amounts that occur.
\<close>

definition numericTrade :: "(string \<Rightarrow> jsnum) \<Rightarrow> string option TradeInfo \<Rightarrow> jsnum TradeInfo" where
  "numericTrade parseFloat trade =
     \<lparr>timestamp = timestamp trade, type = type trade,
      solAmount = parseFloatOf parseFloat (solAmount trade),
      tokenAmount = tokenAmount trade, txHash = txHash trade\<rparr>"

definition ledgerTrade :: "string \<Rightarrow> string \<Rightarrow> string \<Rightarrow> string \<Rightarrow> string option TradeInfo" where
  "ledgerTrade time kind amount hash =
     \<lparr>timestamp = Some time, type = Some kind, solAmount = Some amount,
      tokenAmount = Some ''1000'', txHash = Some hash\<rparr>"

definition exampleTimes :: "string list" where
  "exampleTimes =
     [''2024-05-01T10:00:01.000Z'', ''2024-05-01T10:00:02.000Z'', ''2024-05-01T10:00:03.000Z'',
      ''2024-05-01T10:00:04.000Z'', ''2024-05-01T10:00:05.000Z'']"

definition exampleHashes :: "string list" where
  "exampleHashes =
     [''sigAAAAA1111'', ''sigBBBBB2222'', ''sigCCCCC3333'', ''sigDDDDD4444'', ''sigEEEEE5555'']"

definition tradeAt :: "nat \<Rightarrow> string \<Rightarrow> string \<Rightarrow> string option TradeInfo" where
  "tradeAt n kind amount = ledgerTrade (exampleTimes ! n) kind amount (exampleHashes ! n)"

definition zeroNetTrades :: "string option TradeInfo list" where
  "zeroNetTrades =
     [tradeAt 0 ''BUY'' ''1'', tradeAt 1 ''SELL'' ''0.5'', tradeAt 2 ''BUY'' ''0.5'',
      tradeAt 3 ''SELL'' ''2'', tradeAt 4 ''BUY'' ''1'']"

definition netBuyTrades :: "string option TradeInfo list" where
  "netBuyTrades =
     [tradeAt 0 ''BUY'' ''1'', tradeAt 1 ''SELL'' ''0.5'', tradeAt 2 ''BUY'' ''0.5'',
      tradeAt 3 ''BUY'' ''2'', tradeAt 4 ''BUY'' ''1'']"

definition netSellTrades :: "string option TradeInfo list" where
  "netSellTrades =
     [tradeAt 0 ''SELL'' ''1'', tradeAt 1 ''SELL'' ''0.5'', tradeAt 2 ''BUY'' ''0.5'',
      tradeAt 3 ''SELL'' ''2'', tradeAt 4 ''SELL'' ''1'']"

definition fourTrades :: "string option TradeInfo list" where
  "fourTrades =
     [tradeAt 0 ''BUY'' ''1'', tradeAt 1 ''SELL'' ''0.5'', tradeAt 2 ''BUY'' ''0.5'',
      tradeAt 3 ''SELL'' ''2'']"

definition sameBoundaryTrades :: "string option TradeInfo list" where
  "sameBoundaryTrades =
     [ledgerTrade (exampleTimes ! 0) ''SELL'' ''2'' ''sigAAAAA9999'', tradeAt 1 ''BUY'' ''1'',
      tradeAt 2 ''BUY'' ''1'', tradeAt 3 ''BUY'' ''0.5'',
      ledgerTrade (exampleTimes ! 4) ''SELL'' ''1'' ''sigEEEEE0000'']"

definition exampleBatchId :: string where
  "exampleBatchId = ''2024-05-01T10:00:01.000Z-2024-05-01T10:00:05.000Z-sigAAAAA-sigEEEEE''"

definition parseFloatExample :: "string \<Rightarrow> jsnum" where
  "parseFloatExample text =
     (if text = ''1'' then Num 1 else if text = ''0.5'' then Num 0.5
      else if text = ''2'' then Num 2 else NaN)"

text \<open>An SDK whose orders all resolve, one whose orders all throw, and the environment of a
  step: the ledger as the writer prints it, 50% and 25% as buy and sell percentages.\<close>

definition sdkAccepts :: "sdk_call \<Rightarrow> bool" where
  "sdkAccepts call = True"

definition sdkRejects :: "sdk_call \<Rightarrow> bool" where
  "sdkRejects call = False"

definition marketEnv ::
    "string option TradeInfo list \<Rightarrow> (sdk_call \<Rightarrow> bool) \<Rightarrow> curve_answer \<Rightarrow> mm_env" where
  "marketEnv trades sdk curve =
     \<lparr>ledgerFile = Content (csvContent trades), buyPercentage = Num 0.5,
      sellPercentage = Num 0.25, mintIsValid = True, bondingCurve = curve, sdkResolves = sdk\<rparr>"

text \<open>A seen set of 100 identifiers, the oldest first.\<close>

definition hundredBatches :: "string list" where
  "hundredBatches = map (\<lambda>n. replicate (Suc n) (CHR ''x'')) [0..<100]"

definition fullState :: mm_state where
  "fullState = initialState\<lparr>processedBatches := hundredBatches\<rparr>"

text \<open>A ledger of seven records whose last five are those of \<open>zeroNetTrades\<close>.\<close>

definition sevenTrades :: "string option TradeInfo list" where
  "sevenTrades =
     [ledgerTrade ''2024-05-01T09:59:58.000Z'' ''BUY'' ''2'' ''sigYYYYY8888'',
      ledgerTrade ''2024-05-01T09:59:59.000Z'' ''BUY'' ''2'' ''sigZZZZZ9999''] @ zeroNetTrades"

text \<open>
  A hundred further ledgers of five records with net volume 0: the ledger \<open>n\<close> differs
  from \<open>zeroNetTrades\<close> in the timestamp of its first record, whose milliseconds are the
  two digits of \<open>n\<close>, so that the hundred batch identifiers differ from each other and
  from \<open>exampleBatchId\<close>. Each comes with an SDK whose orders all throw, as does the
  net-buy ledger in \<open>failingEnv\<close>. \<open>insertBatch\<close> is what one step on a window of
  identifier \<open>b\<close> does to the seen set.
\<close>

definition digitChar :: "nat \<Rightarrow> char" where
  "digitChar d = ''0123456789'' ! (d mod 10)"

definition digit2 :: "nat \<Rightarrow> string" where
  "digit2 n = [digitChar (n div 10), digitChar n]"

definition otherTime :: "nat \<Rightarrow> string" where
  "otherTime n = ''2024-05-01T10:00:00.0'' @ digit2 n @ ''Z''"

definition otherTrades :: "nat \<Rightarrow> string option TradeInfo list" where
  "otherTrades n =
     [ledgerTrade (otherTime n) ''BUY'' ''1'' (exampleHashes ! 0), tradeAt 1 ''SELL'' ''0.5'',
      tradeAt 2 ''BUY'' ''0.5'', tradeAt 3 ''SELL'' ''2'', tradeAt 4 ''BUY'' ''1'']"

definition otherBatchId :: "nat \<Rightarrow> string" where
  "otherBatchId n = otherTime n @ ''-2024-05-01T10:00:05.000Z-sigAAAAA-sigEEEEE''"

definition otherEnv :: "nat \<Rightarrow> mm_env" where
  "otherEnv n = marketEnv (otherTrades n) sdkRejects CurveFound"

definition hundredOtherEnvs :: "mm_env list" where
  "hundredOtherEnvs = map otherEnv [0..<100]"

definition failingEnv :: mm_env where
  "failingEnv = marketEnv netBuyTrades sdkRejects CurveFound"

definition insertBatch :: "string list \<Rightarrow> string \<Rightarrow> string list" where
  "insertBatch xs b = (if b \<in> set xs then xs else trimBatches (xs @ [b]))"

section \<open>Properties of contrarian/detectlast.ts\<close>

subsection \<open>The decision of the pool-delta classifier\<close>

lemma detectLatestTrade_alt:
  "detectLatestTrade data t =
     (if postPoolNative data t > prePoolNative data t
      then \<lparr>side = Some buy, swappedSOLAmount = postPoolNative data t - prePoolNative data t\<rparr>
      else if postPoolNative data t < prePoolNative data t
      then \<lparr>side = Some sell, swappedSOLAmount = prePoolNative data t - postPoolNative data t\<rparr>
      else \<lparr>side = None, swappedSOLAmount = 0\<rparr>)"
  by (simp add: detectLatestTrade_def prePoolNative_def postPoolNative_def Let_def
      split: prod.splits)

lemma pre_buyTransactionData: "prePoolNative buyTransactionData ''TEST_TOKEN_ADDRESS'' = 100"
  by (simp add: prePoolNative_def buyTransactionData_def toNumber_def
      RAYDIUM_AUTHORITY_def WSOL_ADDRESS_def)

lemma post_buyTransactionData: "postPoolNative buyTransactionData ''TEST_TOKEN_ADDRESS'' = 101"
  by (simp add: postPoolNative_def buyTransactionData_def toNumber_def
      RAYDIUM_AUTHORITY_def WSOL_ADDRESS_def)

lemma pre_sellTransactionData: "prePoolNative sellTransactionData ''TEST_TOKEN_ADDRESS'' = 100"
  by (simp add: prePoolNative_def sellTransactionData_def toNumber_def
      RAYDIUM_AUTHORITY_def WSOL_ADDRESS_def)

lemma post_sellTransactionData: "postPoolNative sellTransactionData ''TEST_TOKEN_ADDRESS'' = 99"
  by (simp add: postPoolNative_def sellTransactionData_def toNumber_def
      RAYDIUM_AUTHORITY_def WSOL_ADDRESS_def)

text \<open>
  Claim C5. Whatever the two balance lists hold, the classifier decides on the pool's
  native amounts alone: a larger post amount is a buy of the difference, a smaller one a
  sell of the difference, equal amounts give no side and magnitude 0. In particular
  100 before and 101 after is a buy of 1, and 100 before and 99 after is a sell of 1; the
  token amounts do not occur in the result.
\<close>

theorem pool_delta_decision:
  "(postPoolNative data t > prePoolNative data t \<longrightarrow>
      detectLatestTrade data t =
        \<lparr>side = Some buy, swappedSOLAmount = postPoolNative data t - prePoolNative data t\<rparr>) \<and>
   (postPoolNative data t < prePoolNative data t \<longrightarrow>
      detectLatestTrade data t =
        \<lparr>side = Some sell, swappedSOLAmount = prePoolNative data t - postPoolNative data t\<rparr>) \<and>
   (postPoolNative data t = prePoolNative data t \<longrightarrow>
      detectLatestTrade data t = \<lparr>side = None, swappedSOLAmount = 0\<rparr>) \<and>
   (prePoolNative data t = 100 \<and> postPoolNative data t = 101 \<longrightarrow>
      detectLatestTrade data t = \<lparr>side = Some buy, swappedSOLAmount = 1\<rparr>) \<and>
   (prePoolNative data t = 100 \<and> postPoolNative data t = 99 \<longrightarrow>
      detectLatestTrade data t = \<lparr>side = Some sell, swappedSOLAmount = 1\<rparr>)"
proof -
  let ?pre = "prePoolNative data t" and ?post = "postPoolNative data t"
  have up: "detectLatestTrade data t = \<lparr>side = Some buy, swappedSOLAmount = ?post - ?pre\<rparr>"
    if "?post > ?pre"
    using that by (simp add: detectLatestTrade_alt)
  have down: "detectLatestTrade data t = \<lparr>side = Some sell, swappedSOLAmount = ?pre - ?post\<rparr>"
    if "?post < ?pre"
    using that by (simp add: detectLatestTrade_alt)
  have level: "detectLatestTrade data t = \<lparr>side = None, swappedSOLAmount = 0\<rparr>"
    if "?post = ?pre"
    using that by (simp add: detectLatestTrade_alt)
  have buy1: "detectLatestTrade data t = \<lparr>side = Some buy, swappedSOLAmount = 1\<rparr>"
    if "?pre = 100 \<and> ?post = 101"
    using that up by simp
  have sell1: "detectLatestTrade data t = \<lparr>side = Some sell, swappedSOLAmount = 1\<rparr>"
    if "?pre = 100 \<and> ?post = 99"
    using that down by simp
  show ?thesis
    using up down level buy1 sell1 by blast
qed

text \<open>Claim C5 on the two transactions of the test program.\<close>

theorem pool_delta_decision_witness:
  "prePoolNative buyTransactionData ''TEST_TOKEN_ADDRESS'' = 100 \<and>
   postPoolNative buyTransactionData ''TEST_TOKEN_ADDRESS'' = 101 \<and>
   detectLatestTrade buyTransactionData ''TEST_TOKEN_ADDRESS'' =
     \<lparr>side = Some buy, swappedSOLAmount = 1\<rparr> \<and>
   prePoolNative sellTransactionData ''TEST_TOKEN_ADDRESS'' = 100 \<and>
   postPoolNative sellTransactionData ''TEST_TOKEN_ADDRESS'' = 99 \<and>
   detectLatestTrade sellTransactionData ''TEST_TOKEN_ADDRESS'' =
     \<lparr>side = Some sell, swappedSOLAmount = 1\<rparr>"
  using pool_delta_decision [of buyTransactionData "''TEST_TOKEN_ADDRESS''"]
        pool_delta_decision [of sellTransactionData "''TEST_TOKEN_ADDRESS''"]
  by (simp add: pre_buyTransactionData post_buyTransactionData
      pre_sellTransactionData post_sellTransactionData)

subsection \<open>The scan of a balance list\<close>

lemma poolScan_Cons:
  "poolScan t (a # rest) st =
     (if poolFound st then st else poolScan t rest (poolUpdate t a st))"
  by (cases st) (simp add: poolFound_def poolUpdate_def Let_def)

lemma poolScan_Nil: "poolScan t [] st = st"
  by (cases st) simp

lemma poolScan_stopped: "poolFound st \<Longrightarrow> poolScan t xs st = st"
  by (cases xs) (simp_all add: poolScan_Nil poolScan_Cons)

lemma poolScan_append:
  "poolScan t (xs @ ys) st = poolScan t ys (poolScan t xs st)"
  by (induction xs arbitrary: st)
     (simp_all add: poolScan_Nil poolScan_Cons poolScan_stopped)

lemma poolScan_snoc:
  "poolScan t (xs @ [a]) st =
     (if poolFound (poolScan t xs st) then poolScan t xs st
      else poolUpdate t a (poolScan t xs st))"
  by (simp add: poolScan_append poolScan_Cons poolScan_Nil)

lemma poolUpdate_fst:
  "fst (poolUpdate t a st) = (if isPoolSOL a then uiAmount a else fst st)"
  by (simp add: poolUpdate_def isPoolSOL_def)

lemma poolUpdate_snd:
  "snd (poolUpdate t a st) = (if isPoolToken t a then uiAmount a else snd st)"
  by (simp add: poolUpdate_def isPoolToken_def)

lemma poolScan_no_match_fst:
  "filter isPoolSOL xs = [] \<Longrightarrow> fst (poolScan t xs st) = fst st"
  by (induction xs arbitrary: st)
     (auto simp add: poolScan_Nil poolScan_Cons poolUpdate_fst split: if_splits)

lemma poolScan_no_match_snd:
  "filter (isPoolToken t) xs = [] \<Longrightarrow> snd (poolScan t xs st) = snd st"
  by (induction xs arbitrary: st)
     (auto simp add: poolScan_Nil poolScan_Cons poolUpdate_snd split: if_splits)

lemma poolScan_single_fst:
  "fst st = Some 0 \<Longrightarrow> length (filter isPoolSOL xs) \<le> 1 \<Longrightarrow>
   fst (poolScan t xs st) = spec_firstMatchAmount isPoolSOL xs"
proof (induction xs arbitrary: st)
  case Nil
  then show ?case by (simp add: poolScan_Nil spec_firstMatchAmount_def)
next
  case (Cons a xs)
  have nf: "\<not> poolFound st" using Cons.prems(1) by (simp add: poolFound_def)
  show ?case
  proof (cases "isPoolSOL a")
    case True
    then have "filter isPoolSOL xs = []" using Cons.prems(2) by simp
    then have "fst (poolScan t xs (poolUpdate t a st)) = uiAmount a"
      using True by (simp add: poolScan_no_match_fst poolUpdate_fst)
    then show ?thesis using nf True by (simp add: poolScan_Cons spec_firstMatchAmount_def)
  next
    case False
    then have "fst (poolUpdate t a st) = Some 0" "length (filter isPoolSOL xs) \<le> 1"
      using Cons.prems by (simp_all add: poolUpdate_fst)
    then have "fst (poolScan t xs (poolUpdate t a st)) = spec_firstMatchAmount isPoolSOL xs"
      by (rule Cons.IH)
    then show ?thesis using nf False by (simp add: poolScan_Cons spec_firstMatchAmount_def)
  qed
qed

lemma poolScan_single_snd:
  "snd st = Some 0 \<Longrightarrow> length (filter (isPoolToken t) xs) \<le> 1 \<Longrightarrow>
   snd (poolScan t xs st) = spec_firstMatchAmount (isPoolToken t) xs"
proof (induction xs arbitrary: st)
  case Nil
  then show ?case by (simp add: poolScan_Nil spec_firstMatchAmount_def)
next
  case (Cons a xs)
  have nf: "\<not> poolFound st" using Cons.prems(1) by (simp add: poolFound_def)
  show ?case
  proof (cases "isPoolToken t a")
    case True
    then have "filter (isPoolToken t) xs = []" using Cons.prems(2) by simp
    then have "snd (poolScan t xs (poolUpdate t a st)) = uiAmount a"
      using True by (simp add: poolScan_no_match_snd poolUpdate_snd)
    then show ?thesis using nf True by (simp add: poolScan_Cons spec_firstMatchAmount_def)
  next
    case False
    then have "snd (poolUpdate t a st) = Some 0" "length (filter (isPoolToken t) xs) \<le> 1"
      using Cons.prems by (simp_all add: poolUpdate_snd)
    then have "snd (poolScan t xs (poolUpdate t a st)) =
        spec_firstMatchAmount (isPoolToken t) xs"
      by (rule Cons.IH)
    then show ?thesis using nf False by (simp add: poolScan_Cons spec_firstMatchAmount_def)
  qed
qed

text \<open>
  Claim C2 as stated fails: with two pool entries for the native mint ahead of the token
  entry, the scan returns the amount of the second one (200), not of the first (100).
\<close>

theorem first_match_wins_counterexample:
  "\<not> spec_firstMatchWins ''TEST_TOKEN_ADDRESS'' duplicateBalances \<and>
   poolScan ''TEST_TOKEN_ADDRESS'' duplicateBalances (Some 0, Some 0) = (Some 200, Some 1000) \<and>
   spec_firstMatchAmount isPoolSOL duplicateBalances = Some 100"
  by (simp add: spec_firstMatchWins_def duplicateBalances_def spec_firstMatchAmount_def
      isPoolSOL_def isPoolToken_def WSOL_ADDRESS_def)

text \<open>
  Claim C2, amended. A scan stops once both loop variables differ from 0 under the strict
  comparison: entries after that point have no effect. Until then every entry of the pool
  authority for the native mint (for the target mint) overwrites the native (token)
  quantity, so among duplicates the last one scanned before the stop is taken. When a list
  holds at most one matching entry for each quantity, the first match is the value taken.
\<close>

theorem pool_scan_overwrites_until_found:
  "(poolFound (poolScan t xs (Some 0, Some 0)) \<longrightarrow>
      poolScan t (xs @ ys) (Some 0, Some 0) = poolScan t xs (Some 0, Some 0)) \<and>
   (\<not> poolFound (poolScan t xs (Some 0, Some 0)) \<and> isPoolSOL a \<longrightarrow>
      fst (poolScan t (xs @ [a]) (Some 0, Some 0)) = uiAmount a) \<and>
   (\<not> poolFound (poolScan t xs (Some 0, Some 0)) \<and> isPoolToken t a \<longrightarrow>
      snd (poolScan t (xs @ [a]) (Some 0, Some 0)) = uiAmount a) \<and>
   (length (filter isPoolSOL xs) \<le> 1 \<and> length (filter (isPoolToken t) xs) \<le> 1 \<longrightarrow>
      spec_firstMatchWins t xs)"
proof (intro conjI impI)
  assume "poolFound (poolScan t xs (Some 0, Some 0))"
  then show "poolScan t (xs @ ys) (Some 0, Some 0) = poolScan t xs (Some 0, Some 0)"
    by (simp add: poolScan_append poolScan_stopped)
next
  assume "\<not> poolFound (poolScan t xs (Some 0, Some 0)) \<and> isPoolSOL a"
  then show "fst (poolScan t (xs @ [a]) (Some 0, Some 0)) = uiAmount a"
    by (simp add: poolScan_snoc poolUpdate_fst)
next
  assume "\<not> poolFound (poolScan t xs (Some 0, Some 0)) \<and> isPoolToken t a"
  then show "snd (poolScan t (xs @ [a]) (Some 0, Some 0)) = uiAmount a"
    by (simp add: poolScan_snoc poolUpdate_snd)
next
  assume h: "length (filter isPoolSOL xs) \<le> 1 \<and> length (filter (isPoolToken t) xs) \<le> 1"
  have "fst (poolScan t xs (Some 0, Some 0)) = spec_firstMatchAmount isPoolSOL xs"
    using h by (simp add: poolScan_single_fst)
  moreover have "snd (poolScan t xs (Some 0, Some 0)) =
      spec_firstMatchAmount (isPoolToken t) xs"
    using h by (simp add: poolScan_single_snd)
  ultimately show "spec_firstMatchWins t xs"
    by (simp add: spec_firstMatchWins_def prod_eq_iff)
qed

text \<open>Claim C2, amended, on a list with one entry per quantity and a later entry for the
  native mint.\<close>

theorem pool_scan_overwrites_until_found_witness:
  "poolFound (poolScan ''TEST_TOKEN_ADDRESS'' [nativeBalance, tokenBalance] (Some 0, Some 0)) \<and>
   poolScan ''TEST_TOKEN_ADDRESS'' ([nativeBalance, tokenBalance] @ [lateBalance]) (Some 0, Some 0) =
     (Some 100, Some 1000) \<and>
   \<not> poolFound (poolScan ''TEST_TOKEN_ADDRESS'' [nativeBalance] (Some 0, Some 0)) \<and>
   isPoolSOL lateBalance \<and>
   fst (poolScan ''TEST_TOKEN_ADDRESS'' ([nativeBalance] @ [lateBalance]) (Some 0, Some 0)) = Some 200 \<and>
   isPoolToken ''TEST_TOKEN_ADDRESS'' tokenBalance \<and>
   snd (poolScan ''TEST_TOKEN_ADDRESS'' ([nativeBalance] @ [tokenBalance]) (Some 0, Some 0)) = Some 1000 \<and>
   length (filter isPoolSOL [nativeBalance, tokenBalance]) \<le> 1 \<and>
   length (filter (isPoolToken ''TEST_TOKEN_ADDRESS'') [nativeBalance, tokenBalance]) \<le> 1 \<and>
   spec_firstMatchWins ''TEST_TOKEN_ADDRESS'' [nativeBalance, tokenBalance]"
proof -
  have s1: "poolScan ''TEST_TOKEN_ADDRESS'' [nativeBalance, tokenBalance] (Some 0, Some 0) = (Some 100, Some 1000)"
    by (simp add: nativeBalance_def tokenBalance_def WSOL_ADDRESS_def)
  have s2: "poolScan ''TEST_TOKEN_ADDRESS'' [nativeBalance] (Some 0, Some 0) = (Some 100, Some 0)"
    by (simp add: nativeBalance_def WSOL_ADDRESS_def)
  have f1: "poolFound (Some 100, Some 1000)" "\<not> poolFound (Some 100, Some 0)"
    by (simp_all add: poolFound_def)
  have m: "isPoolSOL lateBalance" "isPoolToken ''TEST_TOKEN_ADDRESS'' tokenBalance"
     "isPoolSOL nativeBalance" "\<not> isPoolSOL tokenBalance" 
     "\<not> isPoolToken ''TEST_TOKEN_ADDRESS'' nativeBalance"
    by (simp_all add: isPoolSOL_def isPoolToken_def lateBalance_def tokenBalance_def nativeBalance_def WSOL_ADDRESS_def)
  have u: "uiAmount lateBalance = Some 200" "uiAmount tokenBalance = Some 1000"
    by (simp_all add: lateBalance_def tokenBalance_def)
  note T1 = pool_scan_overwrites_until_found
    [of "''TEST_TOKEN_ADDRESS''" "[nativeBalance, tokenBalance]" "[lateBalance]" lateBalance]
  note T2 = pool_scan_overwrites_until_found
    [of "''TEST_TOKEN_ADDRESS''" "[nativeBalance]" "[]" lateBalance]
  note T3 = pool_scan_overwrites_until_found
    [of "''TEST_TOKEN_ADDRESS''" "[nativeBalance]" "[]" tokenBalance]
  have a: "poolScan ''TEST_TOKEN_ADDRESS'' ([nativeBalance, tokenBalance] @ [lateBalance])
      (Some 0, Some 0) = (Some 100, Some 1000)"
    using T1 [THEN conjunct1] by (simp only: s1 f1 simp_thms)
  have b: "fst (poolScan ''TEST_TOKEN_ADDRESS'' ([nativeBalance] @ [lateBalance])
      (Some 0, Some 0)) = Some 200"
    using T2 [THEN conjunct2, THEN conjunct1] by (simp only: s2 f1 m u simp_thms)
  have c: "snd (poolScan ''TEST_TOKEN_ADDRESS'' ([nativeBalance] @ [tokenBalance])
      (Some 0, Some 0)) = Some 1000"
    using T3 [THEN conjunct2, THEN conjunct2, THEN conjunct1]
    by (simp only: s2 f1 m u simp_thms)
  have l: "length (filter isPoolSOL [nativeBalance, tokenBalance]) \<le> 1"
    "length (filter (isPoolToken ''TEST_TOKEN_ADDRESS'') [nativeBalance, tokenBalance]) \<le> 1"
    by (simp_all add: m)
  have d: "spec_firstMatchWins ''TEST_TOKEN_ADDRESS'' [nativeBalance, tokenBalance]"
    using T1 [THEN conjunct2, THEN conjunct2, THEN conjunct2] l by (simp only: simp_thms)
  show ?thesis
    by (simp only: s1 s2 f1 m u a b c d l simp_thms)
qed

subsection \<open>The per-trade contrarian engine\<close>

lemma detect_tenBuyData:
  "detectLatestTrade tenBuyData ''TEST_TOKEN_ADDRESS'' = \<lparr>side = Some buy, swappedSOLAmount = 10\<rparr>"
  by (simp add: detectLatestTrade_def tenBuyData_def toNumber_def WSOL_ADDRESS_def)

lemma detect_sellTransactionData:
  "detectLatestTrade sellTransactionData ''TEST_TOKEN_ADDRESS'' =
     \<lparr>side = Some sell, swappedSOLAmount = 1\<rparr>"
  by (simp add: detectLatestTrade_alt pre_sellTransactionData post_sellTransactionData)

lemma handle_processed:
  assumes "detectLatestTrade data tokenAddress = \<lparr>side = Some d, swappedSOLAmount = m\<rparr>"
    and "case tradeStates e tokenAddress of None \<Rightarrow> True
         | Some st \<Rightarrow> now - lastTradeTimestamp st > 1000"
    and "gateway (oppositeOrder d tokenAddress m)"
  shows "handleTradeDetection gateway now tokenAddress data e =
     Inr (e\<lparr>tradeStates := (tradeStates e)(tokenAddress \<mapsto>
               \<lparr>lastTradeDirection = Some d,
                lastTradeSizeInSOL = m * OPPOSITE_TRADE_PERCENTAGE,
                lastTradeTimestamp = now\<rparr>),
             placed := placed e @ [oppositeOrder d tokenAddress m]\<rparr>)"
  using assms by (simp add: handleTradeDetection_def oppositeOrder_def Let_def)

lemma handle_thrown:
  assumes "detectLatestTrade data tokenAddress = \<lparr>side = Some d, swappedSOLAmount = m\<rparr>"
    and "case tradeStates e tokenAddress of None \<Rightarrow> True
         | Some st \<Rightarrow> now - lastTradeTimestamp st > 1000"
    and "\<not> gateway (oppositeOrder d tokenAddress m)"
  shows "handleTradeDetection gateway now tokenAddress data e =
     Inl (GatewayThrew (oppositeOrder d tokenAddress m))"
  using assms by (simp add: handleTradeDetection_def oppositeOrder_def Let_def)

lemma handle_suppressed:
  assumes "tradeStates e tokenAddress = Some st" and "now - lastTradeTimestamp st \<le> 1000"
  shows "handleTradeDetection gateway now tokenAddress data e = Inr e"
  using assms by (simp add: handleTradeDetection_def Let_def split: option.splits)

text \<open>
  Claim C1 as stated fails: after a detected buy of magnitude 10 with no prior state, the
  stored direction is the detected one (buy), not the direction of the order placed
  (sell). The stored size is that of the order, 1.
\<close>

theorem contrarian_state_direction_counterexample:
  "stateOf (handleTradeDetection gatewayResolves 5000 ''TEST_TOKEN_ADDRESS'' tenBuyData noState)
      ''TEST_TOKEN_ADDRESS'' =
     Some \<lparr>lastTradeDirection = Some buy, lastTradeSizeInSOL = 1, lastTradeTimestamp = 5000\<rparr> \<and>
   stateOf (handleTradeDetection gatewayResolves 5000 ''TEST_TOKEN_ADDRESS'' tenBuyData noState)
      ''TEST_TOKEN_ADDRESS'' \<noteq>
     Some \<lparr>lastTradeDirection = Some sell, lastTradeSizeInSOL = 1, lastTradeTimestamp = 5000\<rparr>"
  by (simp add: handleTradeDetection_def detect_tenBuyData stateOf_def noState_def
      gatewayResolves_def OPPOSITE_TRADE_PERCENTAGE_def Let_def)


text \<open>
  Claim C1, amended. For a token with no prior trade state, a detected buy of magnitude
  \<open>m\<close> whose counter-order the gateway accepts places one sell order of size
  \<open>m * 0.1\<close> and writes the trade state with the detected direction (buy), the size of the
  order placed and the current timestamp.
\<close>

theorem contrarian_first_buy:
  "tradeStates e tokenAddress = None \<and>
   detectLatestTrade data tokenAddress = \<lparr>side = Some buy, swappedSOLAmount = m\<rparr> \<and>
   gateway \<lparr>orderSide = sell, orderToken = tokenAddress,
            orderSizeInSOL = m * 0.1, orderSlippage = 1\<rparr> \<longrightarrow>
   handleTradeDetection gateway now tokenAddress data e =
     Inr (e\<lparr>tradeStates := (tradeStates e)(tokenAddress \<mapsto>
               \<lparr>lastTradeDirection = Some buy, lastTradeSizeInSOL = m * 0.1,
                lastTradeTimestamp = now\<rparr>),
             placed := placed e @
               [\<lparr>orderSide = sell, orderToken = tokenAddress,
                 orderSizeInSOL = m * 0.1, orderSlippage = 1\<rparr>]\<rparr>)"
proof
  assume h: "tradeStates e tokenAddress = None \<and>
    detectLatestTrade data tokenAddress = \<lparr>side = Some buy, swappedSOLAmount = m\<rparr> \<and>
    gateway \<lparr>orderSide = sell, orderToken = tokenAddress,
             orderSizeInSOL = m * 0.1, orderSlippage = 1\<rparr>"
  have ord: "oppositeOrder buy tokenAddress m =
      \<lparr>orderSide = sell, orderToken = tokenAddress, orderSizeInSOL = m * 0.1,
       orderSlippage = 1\<rparr>"
    by (simp add: oppositeOrder_def OPPOSITE_TRADE_PERCENTAGE_def)
  have fresh: "case tradeStates e tokenAddress of None \<Rightarrow> True
       | Some st \<Rightarrow> now - lastTradeTimestamp st > 1000"
    using h by simp
  have "handleTradeDetection gateway now tokenAddress data e =
      Inr (e\<lparr>tradeStates := (tradeStates e)(tokenAddress \<mapsto>
                \<lparr>lastTradeDirection = Some buy,
                 lastTradeSizeInSOL = m * OPPOSITE_TRADE_PERCENTAGE,
                 lastTradeTimestamp = now\<rparr>),
              placed := placed e @ [oppositeOrder buy tokenAddress m]\<rparr>)"
    using h fresh by (intro handle_processed) (simp_all add: ord)
  then show "handleTradeDetection gateway now tokenAddress data e =
      Inr (e\<lparr>tradeStates := (tradeStates e)(tokenAddress \<mapsto>
                \<lparr>lastTradeDirection = Some buy, lastTradeSizeInSOL = m * 0.1,
                 lastTradeTimestamp = now\<rparr>),
              placed := placed e @
                [\<lparr>orderSide = sell, orderToken = tokenAddress,
                  orderSizeInSOL = m * 0.1, orderSlippage = 1\<rparr>]\<rparr>)"
    by (simp add: ord OPPOSITE_TRADE_PERCENTAGE_def)
qed

text \<open>Claim C1, amended, on a detected buy of magnitude 10: the order has size 1 and the
  state is (buy, 1, now).\<close>

theorem contrarian_first_buy_witness:
  "tradeStates noState ''TEST_TOKEN_ADDRESS'' = None \<and>
   detectLatestTrade tenBuyData ''TEST_TOKEN_ADDRESS'' =
     \<lparr>side = Some buy, swappedSOLAmount = 10\<rparr> \<and>
   gatewayResolves \<lparr>orderSide = sell, orderToken = ''TEST_TOKEN_ADDRESS'',
            orderSizeInSOL = 1, orderSlippage = 1\<rparr> \<and>
   handleTradeDetection gatewayResolves 5000 ''TEST_TOKEN_ADDRESS'' tenBuyData noState =
     Inr afterFirst"
  using contrarian_first_buy [of noState "''TEST_TOKEN_ADDRESS''" tenBuyData 10
      gatewayResolves 5000]
  by (simp add: detect_tenBuyData noState_def gatewayResolves_def afterFirst_def)

text \<open>
  Claim C6. If a trade state exists for the token and at most 1000 ms have passed since
  its timestamp, a detection places no order and leaves the state as it is, whatever the
  gateway would answer. A detection with a direction that finds no prior state, or a
  state more than 1000 ms old, is processed: the opposite order is sent and, the gateway
  accepting it, the state is overwritten (a gateway that throws ends the function with its
  exception).
\<close>

theorem cooldown_guard:
  "(tradeStates e tokenAddress = Some st \<and> now - lastTradeTimestamp st \<le> 1000 \<longrightarrow>
      handleTradeDetection gateway now tokenAddress data e = Inr e) \<and>
   (detectLatestTrade data tokenAddress = \<lparr>side = Some d, swappedSOLAmount = m\<rparr> \<and>
    (case tradeStates e tokenAddress of None \<Rightarrow> True
     | Some st' \<Rightarrow> now - lastTradeTimestamp st' > 1000) \<longrightarrow>
      handleTradeDetection gateway now tokenAddress data e =
        (if gateway (oppositeOrder d tokenAddress m)
         then Inr (e\<lparr>tradeStates := (tradeStates e)(tokenAddress \<mapsto>
                       \<lparr>lastTradeDirection = Some d,
                        lastTradeSizeInSOL = m * OPPOSITE_TRADE_PERCENTAGE,
                        lastTradeTimestamp = now\<rparr>),
                     placed := placed e @ [oppositeOrder d tokenAddress m]\<rparr>)
         else Inl (GatewayThrew (oppositeOrder d tokenAddress m))))"
proof (intro conjI impI)
  assume "tradeStates e tokenAddress = Some st \<and> now - lastTradeTimestamp st \<le> 1000"
  then show "handleTradeDetection gateway now tokenAddress data e = Inr e"
    by (simp add: handle_suppressed)
next
  assume due: "detectLatestTrade data tokenAddress = \<lparr>side = Some d, swappedSOLAmount = m\<rparr> \<and>
    (case tradeStates e tokenAddress of None \<Rightarrow> True
     | Some st' \<Rightarrow> now - lastTradeTimestamp st' > 1000)"
  show "handleTradeDetection gateway now tokenAddress data e =
      (if gateway (oppositeOrder d tokenAddress m)
       then Inr (e\<lparr>tradeStates := (tradeStates e)(tokenAddress \<mapsto>
                     \<lparr>lastTradeDirection = Some d,
                      lastTradeSizeInSOL = m * OPPOSITE_TRADE_PERCENTAGE,
                      lastTradeTimestamp = now\<rparr>),
                   placed := placed e @ [oppositeOrder d tokenAddress m]\<rparr>)
       else Inl (GatewayThrew (oppositeOrder d tokenAddress m)))"
  proof (cases "gateway (oppositeOrder d tokenAddress m)")
    case True
    then show ?thesis using due by (simp add: handle_processed)
  next
    case False
    then show ?thesis using due by (simp add: handle_thrown)
  qed
qed

text \<open>Claim C6 after a first detection processed at time 5000: a second one at 5500 is
  suppressed and one at 6500 is processed.\<close>

theorem cooldown_guard_witness:
  "tradeStates afterFirst ''TEST_TOKEN_ADDRESS'' =
     Some \<lparr>lastTradeDirection = Some buy, lastTradeSizeInSOL = 1, lastTradeTimestamp = 5000\<rparr> \<and>
   handleTradeDetection gatewayResolves (5000 + 500) ''TEST_TOKEN_ADDRESS''
     sellTransactionData afterFirst = Inr afterFirst \<and>
   detectLatestTrade sellTransactionData ''TEST_TOKEN_ADDRESS'' =
     \<lparr>side = Some sell, swappedSOLAmount = 1\<rparr> \<and>
   gatewayResolves (oppositeOrder sell ''TEST_TOKEN_ADDRESS'' 1) \<and>
   handleTradeDetection gatewayResolves (5000 + 1500) ''TEST_TOKEN_ADDRESS''
     sellTransactionData afterFirst =
     Inr \<lparr>tradeStates = [''TEST_TOKEN_ADDRESS'' \<mapsto>
            \<lparr>lastTradeDirection = Some sell, lastTradeSizeInSOL = 0.1,
             lastTradeTimestamp = 6500\<rparr>],
          placed = [\<lparr>orderSide = sell, orderToken = ''TEST_TOKEN_ADDRESS'',
                     orderSizeInSOL = 1, orderSlippage = 1\<rparr>,
                    \<lparr>orderSide = buy, orderToken = ''TEST_TOKEN_ADDRESS'',
                     orderSizeInSOL = 0.1, orderSlippage = 1\<rparr>]\<rparr>"
proof -
  let ?st = "\<lparr>lastTradeDirection = Some buy, lastTradeSizeInSOL = 1,
             lastTradeTimestamp = 5000\<rparr>"
  have s: "tradeStates afterFirst ''TEST_TOKEN_ADDRESS'' = Some ?st"
    by (simp add: afterFirst_def)
  have g: "gatewayResolves (oppositeOrder sell ''TEST_TOKEN_ADDRESS'' 1)"
    by (simp add: gatewayResolves_def)
  have a: "handleTradeDetection gatewayResolves (5000 + 500) ''TEST_TOKEN_ADDRESS''
     sellTransactionData afterFirst = Inr afterFirst"
    using cooldown_guard [of afterFirst "''TEST_TOKEN_ADDRESS''" ?st "5000 + 500"
        gatewayResolves sellTransactionData sell 1, THEN conjunct1]
    by (simp add: s)
  have b: "handleTradeDetection gatewayResolves (5000 + 1500) ''TEST_TOKEN_ADDRESS''
     sellTransactionData afterFirst =
     Inr (afterFirst\<lparr>tradeStates := (tradeStates afterFirst)(''TEST_TOKEN_ADDRESS'' \<mapsto>
                  \<lparr>lastTradeDirection = Some sell,
                   lastTradeSizeInSOL = 1 * OPPOSITE_TRADE_PERCENTAGE,
                   lastTradeTimestamp = 5000 + 1500\<rparr>),
                placed := placed afterFirst @ [oppositeOrder sell ''TEST_TOKEN_ADDRESS'' 1]\<rparr>)"
    using cooldown_guard [of afterFirst "''TEST_TOKEN_ADDRESS''" ?st "5000 + 1500"
        gatewayResolves sellTransactionData sell 1, THEN conjunct2]
    by (simp add: s g detect_sellTransactionData)
  show ?thesis
    using a b
    by (simp add: detect_sellTransactionData afterFirst_def oppositeOrder_def
        OPPOSITE_TRADE_PERCENTAGE_def gatewayResolves_def)
qed

section \<open>Properties of the retry wrapper\<close>

lemma from_unfold_rl:
  "i < MAX_RETRIES \<Longrightarrow> failsRateLimited (operation i) \<Longrightarrow>
   fetchWithRetry_from i operation ctx =
     (retryRound ctx i @ fst (fetchWithRetry_from (Suc i) operation ctx),
      snd (fetchWithRetry_from (Suc i) operation ctx))"
  by (subst fetchWithRetry_from.simps)
     (auto simp add: failsRateLimited_def retryRound_def split: outcome.splits prod.splits)

lemma from_rounds:
  "i + k \<le> MAX_RETRIES \<Longrightarrow> list_all failsRateLimited (map operation [i..<i + k]) \<Longrightarrow>
   fetchWithRetry_from i operation ctx =
     (concat (map (retryRound ctx) [i..<i + k]) @
        fst (fetchWithRetry_from (i + k) operation ctx),
      snd (fetchWithRetry_from (i + k) operation ctx))"
proof (induction k arbitrary: i)
  case 0
  then show ?case by simp
next
  case (Suc k)
  have lt: "i < MAX_RETRIES" using Suc.prems(1) by simp
  have split: "[i..<i + Suc k] = i # [Suc i..<Suc i + k]"
    by (simp add: upt_conv_Cons)
  have rl: "failsRateLimited (operation i)"
    and rest: "list_all failsRateLimited (map operation [Suc i..<Suc i + k])"
    using Suc.prems(2) unfolding split by simp_all
  have ih: "fetchWithRetry_from (Suc i) operation ctx =
     (concat (map (retryRound ctx) [Suc i..<Suc i + k]) @
        fst (fetchWithRetry_from (Suc i + k) operation ctx),
      snd (fetchWithRetry_from (Suc i + k) operation ctx))"
    using Suc.prems(1) rest by (intro Suc.IH) simp_all
  show ?case
    unfolding split from_unfold_rl [of i operation ctx, OF lt rl] ih by simp
qed

lemma sleepsOf_append: "sleepsOf (xs @ ys) = sleepsOf xs @ sleepsOf ys"
  by (induction xs rule: sleepsOf.induct) simp_all

lemma attemptsOf_append: "attemptsOf (xs @ ys) = attemptsOf xs @ attemptsOf ys"
  by (induction xs rule: attemptsOf.induct) simp_all

lemma sleepsOf_rounds:
  "sleepsOf (concat (map (retryRound ctx) [i..<i + k])) =
     map (\<lambda>j. BASE_DELAY * 2 ^ j) [i..<i + k]"
  by (induction k)
     (simp_all add: sleepsOf_append retryRound_def exponentialBackoff_def Let_def)

lemma attemptsOf_rounds:
  "attemptsOf (concat (map (retryRound ctx) [i..<i + k])) = [i..<i + k]"
  by (induction k)
     (simp_all add: attemptsOf_append retryRound_def exponentialBackoff_def Let_def)

lemma from_resolves:
  "i < MAX_RETRIES \<Longrightarrow> operation i = Resolves v \<Longrightarrow>
   fetchWithRetry_from i operation ctx = ([Attempt i], Inr v)"
  by (subst fetchWithRetry_from.simps) simp

lemma from_rethrows:
  "i < MAX_RETRIES \<Longrightarrow> operation i = Rejects message \<Longrightarrow> \<not> isRateLimit message \<Longrightarrow>
   fetchWithRetry_from i operation ctx = ([Attempt i], Inl (Rethrown message))"
  by (subst fetchWithRetry_from.simps) simp

lemma from_exhausted:
  "fetchWithRetry_from MAX_RETRIES operation ctx =
     ([], Inl (FailedAfterRetries MAX_RETRIES ctx))"
  by (subst fetchWithRetry_from.simps) simp

lemma fetchWithRetry_rounds:
  "k \<le> MAX_RETRIES \<Longrightarrow> list_all failsRateLimited (map operation [0..<k]) \<Longrightarrow>
   fetchWithRetry operation ctx =
     (concat (map (retryRound ctx) [0..<k]) @ fst (fetchWithRetry_from k operation ctx),
      snd (fetchWithRetry_from k operation ctx))"
  using from_rounds [of 0 k operation ctx] by (simp add: fetchWithRetry_def)

lemma sleepsOf_rounds0:
  "sleepsOf (concat (map (retryRound ctx) [0..<k])) = map (\<lambda>j. BASE_DELAY * 2 ^ j) [0..<k]"
  using sleepsOf_rounds [of ctx 0 k] by simp

lemma attemptsOf_rounds0:
  "attemptsOf (concat (map (retryRound ctx) [0..<k])) = [0..<k]"
  using attemptsOf_rounds [of ctx 0 k] by simp

text \<open>
  Claim C3. If the first \<open>k\<close> invocations fail rate-limited and the next one resolves,
  with \<open>k\<close> below the attempt bound, the wrapper returns that value after \<open>k + 1\<close>
  attempts and exactly \<open>k\<close> sleeps, of \<open>BASE_DELAY * 2 ^ j\<close> for \<open>j = 0, ..., k - 1\<close>.
  If instead the next one fails with an error that is not rate-limiting, that error is
  rethrown at once: the attempt is the last event, and no sleep or attempt follows it. If
  all invocations fail rate-limited, the wrapper fails with the exhausted-retries error
  after exactly \<open>MAX_RETRIES\<close> attempts.
\<close>

theorem retry_contract:
  "(k < MAX_RETRIES \<and> list_all failsRateLimited (map operation [0..<k]) \<and>
    operation k = Resolves v \<longrightarrow>
      snd (fetchWithRetry operation ctx) = Inr v \<and>
      sleepsOf (fst (fetchWithRetry operation ctx)) = map (\<lambda>j. BASE_DELAY * 2 ^ j) [0..<k] \<and>
      attemptsOf (fst (fetchWithRetry operation ctx)) = [0..<Suc k]) \<and>
   (k < MAX_RETRIES \<and> list_all failsRateLimited (map operation [0..<k]) \<and>
    operation k = Rejects message \<and> \<not> isRateLimit message \<longrightarrow>
      snd (fetchWithRetry operation ctx) = Inl (Rethrown message) \<and>
      last (fst (fetchWithRetry operation ctx)) = Attempt k \<and>
      sleepsOf (fst (fetchWithRetry operation ctx)) = map (\<lambda>j. BASE_DELAY * 2 ^ j) [0..<k] \<and>
      attemptsOf (fst (fetchWithRetry operation ctx)) = [0..<Suc k]) \<and>
   (list_all failsRateLimited (map operation [0..<MAX_RETRIES]) \<longrightarrow>
      snd (fetchWithRetry operation ctx) = Inl (FailedAfterRetries MAX_RETRIES ctx) \<and>
      attemptsOf (fst (fetchWithRetry operation ctx)) = [0..<MAX_RETRIES] \<and>
      sleepsOf (fst (fetchWithRetry operation ctx)) =
        map (\<lambda>j. BASE_DELAY * 2 ^ j) [0..<MAX_RETRIES])"
proof (intro conjI impI)
  assume h: "k < MAX_RETRIES \<and> list_all failsRateLimited (map operation [0..<k]) \<and>
    operation k = Resolves v"
  then have r: "fetchWithRetry operation ctx =
      (concat (map (retryRound ctx) [0..<k]) @ [Attempt k], Inr v)"
    by (simp add: fetchWithRetry_rounds [of k] from_resolves)
  show "snd (fetchWithRetry operation ctx) = Inr v"
    by (simp add: r)
  show "sleepsOf (fst (fetchWithRetry operation ctx)) = map (\<lambda>j. BASE_DELAY * 2 ^ j) [0..<k]"
    by (simp add: r sleepsOf_append sleepsOf_rounds0)
  show "attemptsOf (fst (fetchWithRetry operation ctx)) = [0..<Suc k]"
    by (simp add: r attemptsOf_append attemptsOf_rounds0)
next
  assume h: "k < MAX_RETRIES \<and> list_all failsRateLimited (map operation [0..<k]) \<and>
    operation k = Rejects message \<and> \<not> isRateLimit message"
  then have r: "fetchWithRetry operation ctx =
      (concat (map (retryRound ctx) [0..<k]) @ [Attempt k], Inl (Rethrown message))"
    by (simp add: fetchWithRetry_rounds [of k] from_rethrows)
  show "snd (fetchWithRetry operation ctx) = Inl (Rethrown message)"
    by (simp add: r)
  show "last (fst (fetchWithRetry operation ctx)) = Attempt k"
    by (simp add: r)
  show "sleepsOf (fst (fetchWithRetry operation ctx)) = map (\<lambda>j. BASE_DELAY * 2 ^ j) [0..<k]"
    by (simp add: r sleepsOf_append sleepsOf_rounds0)
  show "attemptsOf (fst (fetchWithRetry operation ctx)) = [0..<Suc k]"
    by (simp add: r attemptsOf_append attemptsOf_rounds0)
next
  assume h: "list_all failsRateLimited (map operation [0..<MAX_RETRIES])"
  then have r: "fetchWithRetry operation ctx =
      (concat (map (retryRound ctx) [0..<MAX_RETRIES]), Inl (FailedAfterRetries MAX_RETRIES ctx))"
    by (simp add: fetchWithRetry_rounds [of MAX_RETRIES] from_exhausted)
  show "snd (fetchWithRetry operation ctx) = Inl (FailedAfterRetries MAX_RETRIES ctx)"
    by (simp add: r)
  show "attemptsOf (fst (fetchWithRetry operation ctx)) = [0..<MAX_RETRIES]"
    by (simp add: r attemptsOf_rounds0)
  show "sleepsOf (fst (fetchWithRetry operation ctx)) =
      map (\<lambda>j. BASE_DELAY * 2 ^ j) [0..<MAX_RETRIES]"
    by (simp add: r sleepsOf_rounds0)
qed

lemma rl_examples:
  "isRateLimit (Some ''429 Too Many Requests'')"
  "isRateLimit (Some ''Server responded with 429'')"
  "\<not> isRateLimit (Some ''fetch failed'')"
  by (simp_all add: isRateLimit_def)

text \<open>Claim C3 on the three operations above, with the constants of the source (5 attempts,
  2000 ms).\<close>

theorem retry_contract_witness:
  "2 < MAX_RETRIES \<and>
   failsRateLimited (failsTwiceThenResolves 0) \<and> failsRateLimited (failsTwiceThenResolves 1) \<and>
   failsTwiceThenResolves 2 = Resolves 7 \<and>
   snd (fetchWithRetry failsTwiceThenResolves ''fetching signatures'') = Inr 7 \<and>
   sleepsOf (fst (fetchWithRetry failsTwiceThenResolves ''fetching signatures'')) =
     [2000, 4000] \<and>
   attemptsOf (fst (fetchWithRetry failsTwiceThenResolves ''fetching signatures'')) =
     [0, 1, 2] \<and>
   failsRateLimited (failsOnceThenBreaks 0) \<and>
   failsOnceThenBreaks 1 = Rejects (Some ''fetch failed'') \<and>
   \<not> isRateLimit (Some ''fetch failed'') \<and>
   snd (fetchWithRetry failsOnceThenBreaks ''fetching signatures'') =
     Inl (Rethrown (Some ''fetch failed'')) \<and>
   last (fst (fetchWithRetry failsOnceThenBreaks ''fetching signatures'')) = Attempt 1 \<and>
   attemptsOf (fst (fetchWithRetry failsOnceThenBreaks ''fetching signatures'')) = [0, 1] \<and>
   sleepsOf (fst (fetchWithRetry failsOnceThenBreaks ''fetching signatures'')) = [2000] \<and>
   list_all failsRateLimited (map alwaysRateLimited [0, 1, 2, 3, 4]) \<and>
   snd (fetchWithRetry alwaysRateLimited ''fetching signatures'') =
     Inl (FailedAfterRetries 5 ''fetching signatures'') \<and>
   attemptsOf (fst (fetchWithRetry alwaysRateLimited ''fetching signatures'')) =
     [0, 1, 2, 3, 4] \<and>
   sleepsOf (fst (fetchWithRetry alwaysRateLimited ''fetching signatures'')) =
     [2000, 4000, 8000, 16000, 32000]"
proof -
  have u2: "[0..<2] = [0, Suc 0]" "[0..<Suc 2] = [0, 1, 2]" "[0..<1] = [0]"
    "[0..<Suc 1] = [0, 1]" "[0..<MAX_RETRIES] = [0, 1, 2, 3, 4]"
    by (simp_all add: upt_rec MAX_RETRIES_def)
  have a: "2 < MAX_RETRIES \<and> list_all failsRateLimited (map failsTwiceThenResolves [0..<2]) \<and>
      failsTwiceThenResolves 2 = Resolves 7"
    by (simp add: u2 MAX_RETRIES_def failsTwiceThenResolves_def failsRateLimited_def rl_examples)
  have b: "1 < MAX_RETRIES \<and> list_all failsRateLimited (map failsOnceThenBreaks [0..<1]) \<and>
      failsOnceThenBreaks 1 = Rejects (Some ''fetch failed'') \<and>
      \<not> isRateLimit (Some ''fetch failed'')"
    by (simp add: MAX_RETRIES_def failsOnceThenBreaks_def failsRateLimited_def rl_examples)
  have c: "list_all failsRateLimited (map alwaysRateLimited [0..<MAX_RETRIES])"
    by (simp add: u2 alwaysRateLimited_def failsRateLimited_def rl_examples)
  note A = retry_contract [of 2 failsTwiceThenResolves 7 "''fetching signatures''",
      THEN conjunct1, rule_format, OF a]
  note B = retry_contract [of 1 failsOnceThenBreaks _ "''fetching signatures''"
      "Some ''fetch failed''", THEN conjunct2, THEN conjunct1, rule_format, OF b]
  note C = retry_contract [of _ alwaysRateLimited _ "''fetching signatures''",
      THEN conjunct2, THEN conjunct2, rule_format, OF c]
  have u3: "[0..<3] = [0, Suc 0, 2]" "[0..<5] = [0, Suc 0, 2, 3, 4]"
    by (simp_all add: upt_rec)
  show ?thesis
    using a b c A B C
    by (simp add: u2 u3 BASE_DELAY_def MAX_RETRIES_def alwaysRateLimited_def
        failsRateLimited_def rl_examples)
qed

section \<open>Properties of the ledger writer\<close>

lemma split_no_sep: "sep \<notin> set x \<Longrightarrow> split sep x = [x]"
  by (induction x) auto

lemma split_append_sep:
  "sep \<notin> set x \<Longrightarrow> split sep (x @ sep # rest) = x # split sep rest"
  by (induction x) auto

lemma split_join:
  "xs \<noteq> [] \<Longrightarrow> list_all (\<lambda>x. sep \<notin> set x) xs \<Longrightarrow> split sep (join [sep] xs) = xs"
  by (induction "[sep]" xs rule: join.induct) (simp_all add: split_no_sep split_append_sep)

lemma set_join: "set (join sep xs) \<subseteq> set sep \<union> \<Union> (set ` set xs)"
  by (induction sep xs rule: join.induct) auto

lemma join_snoc_lines:
  "join [c] (x # xs @ ys) = join [c] (x # xs) @ concat (map (\<lambda>y. c # y) ys)"
proof (induction xs arbitrary: x)
  case Nil
  show ?case by (induction ys arbitrary: x) simp_all
next
  case (Cons a xs)
  then show ?case by simp
qed

lemma csvLine_fields:
  "wellFormedTrade t \<Longrightarrow>
   split comma (csvLine t) =
     map fieldText [timestamp t, type t, solAmount t, tokenAmount t, txHash t]"
  unfolding csvLine_def
  using split_join [of "map fieldText [timestamp t, type t, solAmount t, tokenAmount t, txHash t]" comma]
  by (auto simp add: wellFormedTrade_def plainField_def fieldText_def comma_def
      split: option.splits)

lemma parse_csvLine: "wellFormedTrade t \<Longrightarrow> parseLedgerLine (csvLine t) = t"
  by (cases t)
     (auto simp add: parseLedgerLine_def csvLine_fields nthOpt_def wellFormedTrade_def
        plainField_def fieldText_def split: option.splits)

lemma csvLine_has_comma: "comma \<in> set (csvLine t)"
  by (simp add: csvLine_def comma_def)

lemma csvLine_not_blank: "\<not> trimIsEmpty (csvLine t)"
proof -
  have "\<not> isWhiteSpace comma" by (simp add: isWhiteSpace_def comma_def)
  then show ?thesis using csvLine_has_comma [of t]
    by (auto simp add: trimIsEmpty_def list_all_iff)
qed

lemma csvLine_no_newline: "wellFormedTrade t \<Longrightarrow> newline \<notin> set (csvLine t)"
  using set_join [of "'',''" "map fieldText [timestamp t, type t, solAmount t, tokenAmount t, txHash t]"]
  by (auto simp add: csvLine_def wellFormedTrade_def plainField_def fieldText_def newline_def
      split: option.splits)

lemma header_no_newline: "newline \<notin> set (join '','' headers)"
  by (simp add: headers_def newline_def)

lemma lines_of_csvContent:
  "list_all wellFormedTrade ts \<Longrightarrow>
   split newline (csvContent ts) = join '','' headers # map csvLine ts"
  unfolding csvContent_def
  by (rule split_join) (simp_all add: header_no_newline list_all_iff csvLine_no_newline)

lemma read_csvContent:
  "list_all wellFormedTrade ts \<Longrightarrow> readExistingTrades (csvContent ts) = ts"
proof -
  assume wf: "list_all wellFormedTrade ts"
  have f: "filter (\<lambda>line. \<not> trimIsEmpty line) (map csvLine ts) = map csvLine ts"
    by (simp add: csvLine_not_blank)
  have m: "map parseLedgerLine (map csvLine ts) = ts"
    using wf by (induction ts) (simp_all add: parse_csvLine)
  show ?thesis
    by (simp only: readExistingTrades_def Let_def lines_of_csvContent [OF wf] list.sel f m)
qed

lemma csvContent_append:
  "csvContent (old @ new) = csvContent old @ appendedLines new"
  using join_snoc_lines [of newline "join '','' headers" "map csvLine old" "map csvLine new"]
  by (simp add: csvContent_def appendedLines_def comp_def)

text \<open>
  Claim C9. A write in append mode reads the existing file, drops its first line, parses
  the remaining non-blank lines and rewrites the file as the header, the existing records
  and then the new ones. When the file holds the records \<open>old\<close> as the writer prints them,
  the new content is the old content followed by one line per new record: every earlier
  record is kept unchanged and in its place, and reading the file back gives \<open>old\<close>
  followed by \<open>new\<close>. When there is no file yet, the new records are written under the
  header.
\<close>

theorem append_preserves_records:
  "(files (tradesFileName m) = Some content \<longrightarrow>
      writeTradestoCSV False m new files =
        files(tradesFileName m \<mapsto> csvContent (readExistingTrades content @ new))) \<and>
   (list_all wellFormedTrade old \<and> files (tradesFileName m) = Some (csvContent old) \<longrightarrow>
      writeTradestoCSV False m new files =
        files(tradesFileName m \<mapsto> csvContent (old @ new)) \<and>
      csvContent (old @ new) = csvContent old @ appendedLines new \<and>
      (list_all wellFormedTrade new \<longrightarrow>
         readExistingTrades (csvContent (old @ new)) = old @ new)) \<and>
   (files (tradesFileName m) = None \<longrightarrow>
      writeTradestoCSV False m new files = files(tradesFileName m \<mapsto> csvContent new))"
proof (intro conjI impI)
  assume "files (tradesFileName m) = None"
  then show "writeTradestoCSV False m new files = files(tradesFileName m \<mapsto> csvContent new)"
    by (simp add: writeTradestoCSV_def)
next
  assume "files (tradesFileName m) = Some content"
  then show "writeTradestoCSV False m new files =
      files(tradesFileName m \<mapsto> csvContent (readExistingTrades content @ new))"
    by (simp add: writeTradestoCSV_def)
next
  assume "list_all wellFormedTrade old \<and> files (tradesFileName m) = Some (csvContent old)"
  then show "writeTradestoCSV False m new files =
      files(tradesFileName m \<mapsto> csvContent (old @ new))"
    by (simp add: writeTradestoCSV_def read_csvContent)
next
  show "csvContent (old @ new) = csvContent old @ appendedLines new"
    by (rule csvContent_append)
next
  assume "list_all wellFormedTrade old \<and> files (tradesFileName m) = Some (csvContent old)"
    and "list_all wellFormedTrade new"
  then have "list_all wellFormedTrade (old @ new)" by simp
  then show "readExistingTrades (csvContent (old @ new)) = old @ new"
    by (rule read_csvContent)
qed

lemma wf_examples: "wellFormedTrade firstTrade" "wellFormedTrade secondTrade"
  by (simp_all add: wellFormedTrade_def plainField_def firstTrade_def secondTrade_def
      comma_def newline_def)

text \<open>Claim C9 on the ledger holding the first record, with the second one appended.\<close>

theorem append_preserves_records_witness:
  "list_all wellFormedTrade [firstTrade] \<and> list_all wellFormedTrade [secondTrade] \<and>
   ledgerFiles (tradesFileName ''TOKEN'') = Some (csvContent [firstTrade]) \<and>
   csvContent [firstTrade] =
     ''TIMESTAMP,TYPE,SOL_AMOUNT,TOKEN_AMOUNT,TX_HASH'' @ [newline] @
     ''2024-05-01T10:00:00.000Z,BUY,0.5,1200.25,5hJk2abcXYZ'' \<and>
   writeTradestoCSV False ''TOKEN'' [secondTrade] ledgerFiles =
     ledgerFiles(''TOKEN_trades.csv'' \<mapsto>
       ''TIMESTAMP,TYPE,SOL_AMOUNT,TOKEN_AMOUNT,TX_HASH'' @ [newline] @
       ''2024-05-01T10:00:00.000Z,BUY,0.5,1200.25,5hJk2abcXYZ'' @ [newline] @
       ''2024-05-01T10:00:05.000Z,SELL,1.25,3000,3QwErTy9876'') \<and>
   readExistingTrades (csvContent ([firstTrade] @ [secondTrade])) = [firstTrade, secondTrade]"
proof -
  have wf: "list_all wellFormedTrade [firstTrade]" "list_all wellFormedTrade [secondTrade]"
    by (simp_all add: wf_examples)
  have f: "ledgerFiles (tradesFileName ''TOKEN'') = Some (csvContent [firstTrade])"
    by (simp add: ledgerFiles_def tradesFileName_def)
  note T = append_preserves_records [of ledgerFiles "''TOKEN''" "csvContent [firstTrade]"
      "[secondTrade]" "[firstTrade]", THEN conjunct2, THEN conjunct1, rule_format,
      OF conjI [OF wf(1) f]]
  have c1: "csvContent [firstTrade] =
     ''TIMESTAMP,TYPE,SOL_AMOUNT,TOKEN_AMOUNT,TX_HASH'' @ [newline] @
     ''2024-05-01T10:00:00.000Z,BUY,0.5,1200.25,5hJk2abcXYZ''"
    by (simp add: csvContent_def csvLine_def headers_def firstTrade_def fieldText_def)
  have c2: "csvContent ([firstTrade] @ [secondTrade]) =
       ''TIMESTAMP,TYPE,SOL_AMOUNT,TOKEN_AMOUNT,TX_HASH'' @ [newline] @
       ''2024-05-01T10:00:00.000Z,BUY,0.5,1200.25,5hJk2abcXYZ'' @ [newline] @
       ''2024-05-01T10:00:05.000Z,SELL,1.25,3000,3QwErTy9876''"
    by (simp add: csvContent_def csvLine_def headers_def firstTrade_def secondTrade_def
        fieldText_def)
  have w: "writeTradestoCSV False ''TOKEN'' [secondTrade] ledgerFiles =
     ledgerFiles(tradesFileName ''TOKEN'' \<mapsto> csvContent ([firstTrade] @ [secondTrade]))"
    using T [THEN conjunct1] by simp
  have r: "readExistingTrades (csvContent ([firstTrade] @ [secondTrade])) =
      [firstTrade] @ [secondTrade]"
    using T [THEN conjunct2, THEN conjunct2, rule_format, OF wf(2)] by simp
  show ?thesis
    using wf f c1 w r unfolding c2 by (simp add: tradesFileName_def)
qed

section \<open>Properties of market_maker.ts\<close>

lemma executeTrade_never_throws: "fst (executeTrade env isBuy amount s) = None"
  by (simp add: executeTrade_def Let_def split: prod.splits)

lemma executeTrade_try_batches:
  "processedBatches (snd (executeTrade_try env isBuy amount s)) = processedBatches s"
  by (simp add: executeTrade_try_def Let_def split: curve_answer.splits option.splits)

lemma executeTrade_batches:
  "processedBatches (snd (executeTrade env isBuy amount s)) = processedBatches s"
proof (cases "isProcessingTrade s")
  case True
  then show ?thesis by (simp add: executeTrade_def)
next
  case False
  obtain thrown s1 where e: "executeTrade_try env isBuy amount (s\<lparr>isProcessingTrade := True\<rparr>) =
      (thrown, s1)"
    by (cases "executeTrade_try env isBuy amount (s\<lparr>isProcessingTrade := True\<rparr>)")
  have "processedBatches s1 = processedBatches s"
    using executeTrade_try_batches [of env isBuy amount "s\<lparr>isProcessingTrade := True\<rparr>"] e
    by simp
  then show ?thesis using False e
    by (simp add: executeTrade_def Let_def split: option.splits)
qed

lemma counterTrade_batches:
  "processedBatches (counterTrade env netVolume s) = processedBatches s"
  by (simp add: counterTrade_def executeTrade_batches)

lemma watchTradeFile_try_new:
  assumes "length (lastFiveOf parseFloat content) = 5"
    and "batchIdOf (lastFiveOf parseFloat content) = Inr b"
    and "b \<notin> set (processedBatches s)"
  shows "watchTradeFile_try parseFloat env content s =
     (None, (counterTrade env (netVolumeOf (lastFiveOf parseFloat content)) s)
              \<lparr>processedBatches := trimBatches (processedBatches s @ [b])\<rparr>)"
proof -
  let ?nv = "netVolumeOf (lastFiveOf parseFloat content)"
  let ?r = "(if ?nv \<noteq> Num 0
            then (if jsGreater ?nv (Num 0)
                  then executeTrade env False ?nv s
                  else executeTrade env True (jsAbs ?nv) s)
            else (None, s))"
  have f: "fst ?r = None" by (simp add: executeTrade_never_throws)
  have sn: "snd ?r = counterTrade env ?nv s" by (simp add: counterTrade_def)
  obtain thrown s1 where r: "?r = (thrown, s1)" by (cases ?r)
  have t: "thrown = None" using f r by simp
  have s1: "s1 = counterTrade env ?nv s" using sn r by simp
  have pb: "processedBatches s1 = processedBatches s"
    by (simp add: s1 counterTrade_batches)
  show ?thesis
    unfolding watchTradeFile_try_def Let_def
    using assms r t pb s1
    by (simp add: setAdd_def del: if_split cong: if_cong)
qed

lemma parseTradeLine_csvLine:
  "wellFormedTrade t \<Longrightarrow> parseTradeLine parseFloat (csvLine t) = numericTrade parseFloat t"
  by (auto simp add: parseTradeLine_def numericTrade_def csvLine_fields nthOpt_def
      wellFormedTrade_def plainField_def fieldText_def split: option.splits)

lemma ledger_of_csvContent:
  assumes wf: "list_all wellFormedTrade ts"
  shows "ledgerTradesOf parseFloat (csvContent ts) = map (numericTrade parseFloat) ts"
proof -
  have f: "filter (\<lambda>line. \<not> trimIsEmpty line) (map csvLine ts) = map csvLine ts"
    by (simp add: csvLine_not_blank)
  have m: "map (parseTradeLine parseFloat) (map csvLine ts) = map (numericTrade parseFloat) ts"
    using wf by (induction ts) (simp_all add: parseTradeLine_csvLine)
  show ?thesis
    by (simp only: ledgerTradesOf_def Let_def lines_of_csvContent [OF wf] list.sel f m)
qed

lemma lastFiveOf_ledger:
  "lastFiveOf parseFloat content =
     drop (length (ledgerTradesOf parseFloat content) - 5) (ledgerTradesOf parseFloat content)"
  by (simp add: lastFiveOf_def Let_def)

lemma length_lastFiveOf_min:
  "length (lastFiveOf parseFloat content) = min 5 (length (ledgerTradesOf parseFloat content))"
  by (simp add: lastFiveOf_ledger)

lemma window_of_csvContent:
  assumes wf: "list_all wellFormedTrade ts"
  shows "lastFiveOf parseFloat (csvContent ts) =
     drop (length ts - 5) (map (numericTrade parseFloat) ts)"
  by (simp add: lastFiveOf_ledger ledger_of_csvContent [OF wf])

lemma length_lastFiveOf: "length (lastFiveOf parseFloat content) \<le> 5"
  by (simp add: lastFiveOf_def Let_def)

lemma step_short:
  "ledgerFile env = Content content \<Longrightarrow> length (lastFiveOf parseFloat content) < 5 \<Longrightarrow>
   watchTradeFile parseFloat env s = s"
  by (simp add: watchTradeFile_def watchTradeFile_try_def Let_def)

lemma step_seen:
  "ledgerFile env = Content content \<Longrightarrow> length (lastFiveOf parseFloat content) = 5 \<Longrightarrow>
   batchIdOf (lastFiveOf parseFloat content) = Inr b \<Longrightarrow> b \<in> set (processedBatches s) \<Longrightarrow>
   watchTradeFile parseFloat env s = s"
  by (simp add: watchTradeFile_def watchTradeFile_try_def Let_def)

lemma step_no_hash:
  "ledgerFile env = Content content \<Longrightarrow> length (lastFiveOf parseFloat content) = 5 \<Longrightarrow>
   batchIdOf (lastFiveOf parseFloat content) = Inl err \<Longrightarrow>
   watchTradeFile parseFloat env s = s\<lparr>errorLog := errorLog s @ [ErrorWatchingTradeFile err]\<rparr>"
  by (simp add: watchTradeFile_def watchTradeFile_try_def Let_def)

lemma step_new:
  "ledgerFile env = Content content \<Longrightarrow> length (lastFiveOf parseFloat content) = 5 \<Longrightarrow>
   batchIdOf (lastFiveOf parseFloat content) = Inr b \<Longrightarrow> b \<notin> set (processedBatches s) \<Longrightarrow>
   watchTradeFile parseFloat env s =
     (counterTrade env (netVolumeOf (lastFiveOf parseFloat content)) s)
       \<lparr>processedBatches := trimBatches (processedBatches s @ [b])\<rparr>"
  by (simp add: watchTradeFile_def watchTradeFile_try_new)

lemma addToNetVolume_Num:
  "solAmount trade \<noteq> NaN \<Longrightarrow>
   addToNetVolume (Num a) trade = Num (a + signedAmount trade)"
  by (cases "solAmount trade")
     (simp_all add: addToNetVolume_def jsAdd_def jsNeg_def signedAmount_def amountOf_def)

lemma netVolume_fold:
  "list_all (\<lambda>trade. solAmount trade \<noteq> NaN) w \<Longrightarrow>
   foldl addToNetVolume (Num a) w = Num (a + sum_list (map signedAmount w))"
  by (induction w arbitrary: a) (simp_all add: addToNetVolume_Num add.assoc)

lemma netVolumeOf_sum:
  "list_all (\<lambda>trade. solAmount trade \<noteq> NaN) w \<Longrightarrow>
   netVolumeOf w = Num (sum_list (map signedAmount w))"
  using netVolume_fold [of w 0] by (simp add: netVolumeOf_def)

lemma length_trimBatches: "length (trimBatches xs) \<le> 100"
  by (simp add: trimBatches_def)

lemma trimBatches_keeps_last: "b \<in> set (trimBatches (xs @ [b]))"
  by (simp add: trimBatches_def)

lemma trimBatches_small: "length xs < 100 \<Longrightarrow> trimBatches (xs @ [b]) = xs @ [b]"
  by (simp add: trimBatches_def)

lemma trimBatches_full:
  "length xs = 100 \<Longrightarrow> trimBatches (xs @ [b]) = drop 51 xs @ [b]"
  by (simp add: trimBatches_def)

lemma batches_after_step:
  "processedBatches (watchTradeFile parseFloat env s) =
     (case windowId parseFloat env of
        None \<Rightarrow> processedBatches s
      | Some b \<Rightarrow> if b \<in> set (processedBatches s) then processedBatches s
                  else trimBatches (processedBatches s @ [b]))"
proof (cases "ledgerFile env")
  case NoFile
  then show ?thesis by (simp add: watchTradeFile_def windowId_def)
next
  case Unreadable
  then show ?thesis by (simp add: watchTradeFile_def windowId_def)
next
  case (Content content)
  show ?thesis
  proof (cases "length (lastFiveOf parseFloat content) < 5")
    case True
    then show ?thesis using Content by (simp add: step_short windowId_def)
  next
    case False
    then have five: "length (lastFiveOf parseFloat content) = 5"
      using length_lastFiveOf [of parseFloat content] by simp
    show ?thesis
    proof (cases "batchIdOf (lastFiveOf parseFloat content)")
      case (Inl err)
      then show ?thesis using Content five by (simp add: step_no_hash windowId_def)
    next
      case (Inr b)
      then show ?thesis using Content five
        by (cases "b \<in> set (processedBatches s)") (simp_all add: step_seen step_new windowId_def)
    qed
  qed
qed

lemma executeTrade_busy: "isProcessingTrade s \<Longrightarrow> snd (executeTrade env isBuy amount s) = s"
  by (simp add: executeTrade_def)

lemma executeTrade_order_resolves:
  assumes "readyToTrade env s"
    and "(if isBuy then buyPercentage env else sellPercentage env) = Num p"
    and "call = (if isBuy then SdkBuy (lamportsOf v p) else SdkSell (lamportsOf v p))"
    and "sdkResolves env call"
  shows "snd (executeTrade env isBuy (Num v) s) = s\<lparr>sdkCalls := sdkCalls s @ [call]\<rparr>"
  using assms
  by (cases s)
     (auto simp add: executeTrade_def executeTrade_try_def readyToTrade_def Let_def jsAbs_def
        jsMul_def floorToBigInt_def lamportsOf_def)

lemma executeTrade_order_fails:
  assumes "readyToTrade env s"
    and "(if isBuy then buyPercentage env else sellPercentage env) = Num p"
    and "call = (if isBuy then SdkBuy (lamportsOf v p) else SdkSell (lamportsOf v p))"
    and "\<not> sdkResolves env call"
  shows "snd (executeTrade env isBuy (Num v) s) =
     s\<lparr>sdkCalls := sdkCalls s @ [call],
       errorLog := errorLog s @ [ErrorExecutingTrade isBuy (OrderFailed call)]\<rparr>"
  using assms
  by (cases s)
     (auto simp add: executeTrade_def executeTrade_try_def readyToTrade_def Let_def jsAbs_def
        jsMul_def floorToBigInt_def lamportsOf_def)

lemma executeTrade_curve_absent:
  assumes "\<not> isProcessingTrade s" and "mintIsValid env" and "bondingCurve env = CurveAbsent"
  shows "snd (executeTrade env isBuy amount s) =
     s\<lparr>errorLog := errorLog s @ [BondingCurveNotFound]\<rparr>"
  using assms
  by (cases s) (auto simp add: executeTrade_def executeTrade_try_def Let_def)

lemma executeTrade_order_calls:
  assumes "readyToTrade env s"
    and "(if isBuy then buyPercentage env else sellPercentage env) = Num p"
  shows "sdkCalls (snd (executeTrade env isBuy (Num v) s)) =
     sdkCalls s @ [if isBuy then SdkBuy (lamportsOf v p) else SdkSell (lamportsOf v p)]"
proof (cases "sdkResolves env (if isBuy then SdkBuy (lamportsOf v p) else SdkSell (lamportsOf v p))")
  case True
  show ?thesis
    by (simp add: executeTrade_order_resolves [OF assms refl True])
next
  case False
  show ?thesis
    by (simp add: executeTrade_order_fails [OF assms refl False])
qed

lemma counterTrade_zero: "counterTrade env (Num 0) s = s"
  by (simp add: counterTrade_def)

lemma counterTrade_pos: "v > 0 \<Longrightarrow> counterTrade env (Num v) s = snd (executeTrade env False (Num v) s)"
  by (simp add: counterTrade_def jsGreater_def)

lemma counterTrade_neg:
  "v < 0 \<Longrightarrow> counterTrade env (Num v) s = snd (executeTrade env True (Num \<bar>v\<bar>) s)"
  by (simp add: counterTrade_def jsGreater_def jsAbs_def)

lemma batch_recorded:
  "windowId parseFloat env = Some b \<Longrightarrow>
   b \<in> set (processedBatches (watchTradeFile parseFloat env s))"
  by (simp add: batches_after_step trimBatches_keeps_last)

lemma windowId_Some:
  "ledgerFile env = Content content \<Longrightarrow> length (lastFiveOf parseFloat content) = 5 \<Longrightarrow>
   batchIdOf (lastFiveOf parseFloat content) = Inr b \<Longrightarrow> windowId parseFloat env = Some b"
  by (simp add: windowId_def)

lemma step_twice:
  assumes "ledgerFile env = Content content" and "length (lastFiveOf parseFloat content) = 5"
    and "batchIdOf (lastFiveOf parseFloat content) = Inr b"
    and "b \<in> set (processedBatches s)"
  shows "watchRun parseFloat (replicate n env) s = s"
  by (induction n) (simp_all add: step_seen [OF assms])

text \<open>
  One step, in terms of the window \<open>recentTrades\<close> alone: what a window shorter than
  five, and a window of five with a new identifier, make of the state.
\<close>

lemma aggregator_on_window:
  "ledgerFile env = Content content \<and> w = lastFiveOf parseFloat content \<longrightarrow>
   (length w < 5 \<longrightarrow> watchTradeFile parseFloat env s = s) \<and>
   (list_all (\<lambda>trade. solAmount trade \<noteq> NaN) w \<longrightarrow>
      netVolumeOf w = Num (sum_list (map signedAmount w))) \<and>
   (length w = 5 \<and> batchIdOf w = Inr b \<and> b \<notin> set (processedBatches s) \<longrightarrow>
      (netVolumeOf w = Num 0 \<longrightarrow>
         watchTradeFile parseFloat env s =
           s\<lparr>processedBatches := trimBatches (processedBatches s @ [b])\<rparr>) \<and>
      (netVolumeOf w = Num v \<and> v > 0 \<longrightarrow>
         watchTradeFile parseFloat env s =
           (snd (executeTrade env False (Num v) s))
             \<lparr>processedBatches := trimBatches (processedBatches s @ [b])\<rparr> \<and>
         (readyToTrade env s \<and> sellPercentage env = Num p \<longrightarrow>
            sdkCalls (watchTradeFile parseFloat env s) =
              sdkCalls s @ [SdkSell (lamportsOf v p)])) \<and>
      (netVolumeOf w = Num v \<and> v < 0 \<longrightarrow>
         watchTradeFile parseFloat env s =
           (snd (executeTrade env True (Num \<bar>v\<bar>) s))
             \<lparr>processedBatches := trimBatches (processedBatches s @ [b])\<rparr> \<and>
         (readyToTrade env s \<and> buyPercentage env = Num p \<longrightarrow>
            sdkCalls (watchTradeFile parseFloat env s) =
              sdkCalls s @ [SdkBuy (lamportsOf \<bar>v\<bar> p)])))"
proof (intro impI conjI)
  assume a: "ledgerFile env = Content content \<and> w = lastFiveOf parseFloat content"
  {
    assume "length w < 5"
    then show "watchTradeFile parseFloat env s = s" using a by (simp add: step_short)
  }
  {
    assume "list_all (\<lambda>trade. solAmount trade \<noteq> NaN) w"
    then show "netVolumeOf w = Num (sum_list (map signedAmount w))"
      by (rule netVolumeOf_sum)
  }
  assume n: "length w = 5 \<and> batchIdOf w = Inr b \<and> b \<notin> set (processedBatches s)"
  have st: "watchTradeFile parseFloat env s =
      (counterTrade env (netVolumeOf w) s)
        \<lparr>processedBatches := trimBatches (processedBatches s @ [b])\<rparr>"
    using a n by (simp add: step_new)
  {
    assume "netVolumeOf w = Num 0"
    then show "watchTradeFile parseFloat env s =
        s\<lparr>processedBatches := trimBatches (processedBatches s @ [b])\<rparr>"
      by (simp add: st counterTrade_zero)
  }
  {
    assume v: "netVolumeOf w = Num v \<and> v > 0"
    then show sell: "watchTradeFile parseFloat env s =
        (snd (executeTrade env False (Num v) s))
          \<lparr>processedBatches := trimBatches (processedBatches s @ [b])\<rparr>"
      by (simp add: st counterTrade_pos)
    assume "readyToTrade env s \<and> sellPercentage env = Num p"
    then show "sdkCalls (watchTradeFile parseFloat env s) =
        sdkCalls s @ [SdkSell (lamportsOf v p)]"
      using executeTrade_order_calls [of env s False p v] by (simp add: sell)
  }
  {
    assume v: "netVolumeOf w = Num v \<and> v < 0"
    then show buy: "watchTradeFile parseFloat env s =
        (snd (executeTrade env True (Num \<bar>v\<bar>) s))
          \<lparr>processedBatches := trimBatches (processedBatches s @ [b])\<rparr>"
      by (simp add: st counterTrade_neg)
    assume "readyToTrade env s \<and> buyPercentage env = Num p"
    then show "sdkCalls (watchTradeFile parseFloat env s) =
        sdkCalls s @ [SdkBuy (lamportsOf \<bar>v\<bar> p)]"
      using executeTrade_order_calls [of env s True p "\<bar>v\<bar>"] by (simp add: buy)
  }
qed

text \<open>
  Claim C4. The window the aggregator works on is the last five records of the ledger
  (all of them when there are fewer): the data lines of the file after the header, blank
  ones dropped, which for a ledger the writer printed are its records in order. With fewer
  than five records the aggregator does nothing: no order and no identity recorded. The
  net volume of the window is the sum of the amounts, buys positive and sells negative.
  With five records or more and a window whose identity is not yet seen: a net volume of
  0 records the identity and places no order; a positive net volume \<open>v\<close> runs
  \<open>executeTrade(false, v)\<close>, which, when it reaches the SDK, sends a sell of
  \<open>floor(|v * sellPercentage| * LAMPORTS_PER_SOL)\<close> lamports; a negative one runs
  \<open>executeTrade(true, |v|)\<close>, which sends a buy sized with the buy percentage. In each
  case the identity is recorded afterwards.
\<close>

theorem batch_aggregator_decision:
  "ledgerFile env = Content content \<and> trades = ledgerTradesOf parseFloat content \<and>
   w = lastFiveOf parseFloat content \<longrightarrow>
   w = drop (length trades - 5) trades \<and>
   length w = min 5 (length trades) \<and>
   (list_all wellFormedTrade records \<and> content = csvContent records \<longrightarrow>
      trades = map (numericTrade parseFloat) records) \<and>
   (length trades < 5 \<longrightarrow> watchTradeFile parseFloat env s = s) \<and>
   (list_all (\<lambda>trade. solAmount trade \<noteq> NaN) w \<longrightarrow>
      netVolumeOf w = Num (sum_list (map signedAmount w))) \<and>
   (5 \<le> length trades \<and> batchIdOf w = Inr b \<and> b \<notin> set (processedBatches s) \<longrightarrow>
      (netVolumeOf w = Num 0 \<longrightarrow>
         watchTradeFile parseFloat env s =
           s\<lparr>processedBatches := trimBatches (processedBatches s @ [b])\<rparr>) \<and>
      (netVolumeOf w = Num v \<and> v > 0 \<longrightarrow>
         watchTradeFile parseFloat env s =
           (snd (executeTrade env False (Num v) s))
             \<lparr>processedBatches := trimBatches (processedBatches s @ [b])\<rparr> \<and>
         (readyToTrade env s \<and> sellPercentage env = Num p \<longrightarrow>
            sdkCalls (watchTradeFile parseFloat env s) =
              sdkCalls s @ [SdkSell (lamportsOf v p)])) \<and>
      (netVolumeOf w = Num v \<and> v < 0 \<longrightarrow>
         watchTradeFile parseFloat env s =
           (snd (executeTrade env True (Num \<bar>v\<bar>) s))
             \<lparr>processedBatches := trimBatches (processedBatches s @ [b])\<rparr> \<and>
         (readyToTrade env s \<and> buyPercentage env = Num p \<longrightarrow>
            sdkCalls (watchTradeFile parseFloat env s) =
              sdkCalls s @ [SdkBuy (lamportsOf \<bar>v\<bar> p)])))"
proof
  assume a: "ledgerFile env = Content content \<and> trades = ledgerTradesOf parseFloat content \<and>
    w = lastFiveOf parseFloat content"
  then have fl: "ledgerFile env = Content content"
    and tr: "trades = ledgerTradesOf parseFloat content"
    and win: "w = lastFiveOf parseFloat content"
    by blast+
  have last5: "w = drop (length trades - 5) trades"
    unfolding win tr by (rule lastFiveOf_ledger)
  have len: "length w = min 5 (length trades)"
    unfolding win tr by (rule length_lastFiveOf_min)
  have written: "trades = map (numericTrade parseFloat) records"
    if "list_all wellFormedTrade records \<and> content = csvContent records"
    using that tr by (simp add: ledger_of_csvContent)
  note W = aggregator_on_window [of env content w parseFloat s b v p, THEN mp,
      OF conjI [OF fl win]]
  have short: "watchTradeFile parseFloat env s = s" if "length trades < 5"
    using that len W [THEN conjunct1] by simp
  have five: "length w = 5" if "5 \<le> length trades"
    using that len by simp
  show "w = drop (length trades - 5) trades \<and>
   length w = min 5 (length trades) \<and>
   (list_all wellFormedTrade records \<and> content = csvContent records \<longrightarrow>
      trades = map (numericTrade parseFloat) records) \<and>
   (length trades < 5 \<longrightarrow> watchTradeFile parseFloat env s = s) \<and>
   (list_all (\<lambda>trade. solAmount trade \<noteq> NaN) w \<longrightarrow>
      netVolumeOf w = Num (sum_list (map signedAmount w))) \<and>
   (5 \<le> length trades \<and> batchIdOf w = Inr b \<and> b \<notin> set (processedBatches s) \<longrightarrow>
      (netVolumeOf w = Num 0 \<longrightarrow>
         watchTradeFile parseFloat env s =
           s\<lparr>processedBatches := trimBatches (processedBatches s @ [b])\<rparr>) \<and>
      (netVolumeOf w = Num v \<and> v > 0 \<longrightarrow>
         watchTradeFile parseFloat env s =
           (snd (executeTrade env False (Num v) s))
             \<lparr>processedBatches := trimBatches (processedBatches s @ [b])\<rparr> \<and>
         (readyToTrade env s \<and> sellPercentage env = Num p \<longrightarrow>
            sdkCalls (watchTradeFile parseFloat env s) =
              sdkCalls s @ [SdkSell (lamportsOf v p)])) \<and>
      (netVolumeOf w = Num v \<and> v < 0 \<longrightarrow>
         watchTradeFile parseFloat env s =
           (snd (executeTrade env True (Num \<bar>v\<bar>) s))
             \<lparr>processedBatches := trimBatches (processedBatches s @ [b])\<rparr> \<and>
         (readyToTrade env s \<and> buyPercentage env = Num p \<longrightarrow>
            sdkCalls (watchTradeFile parseFloat env s) =
              sdkCalls s @ [SdkBuy (lamportsOf \<bar>v\<bar> p)])))"
    using last5 len written short five W [THEN conjunct2] by blast
qed

lemma batchIdOf_boundary:
  assumes "timestamp (w1 ! 0) = timestamp (w2 ! 0)" and "timestamp (w1 ! 4) = timestamp (w2 ! 4)"
    and "txHash (w1 ! 0) = Some h1" and "txHash (w2 ! 0) = Some h1'" and "take 8 h1 = take 8 h1'"
    and "txHash (w1 ! 4) = Some h2" and "txHash (w2 ! 4) = Some h2'" and "take 8 h2 = take 8 h2'"
  shows "batchIdOf w1 = batchIdOf w2"
  using assms by (simp add: batchIdOf_def)

text \<open>
  Claim C7. Two windows of five trades whose first and last timestamps agree and whose
  first and last hashes agree on their first 8 characters have the same batch identifier.
  A window whose identifier is in the seen set changes nothing. So after a step on one
  window, a step on another window with the same identifier is a no-op.
\<close>

theorem same_identity_is_suppressed:
  "(length w1 = 5 \<and> length w2 = 5 \<and>
    timestamp (w1 ! 0) = timestamp (w2 ! 0) \<and> timestamp (w1 ! 4) = timestamp (w2 ! 4) \<and>
    txHash (w1 ! 0) = Some h1 \<and> txHash (w2 ! 0) = Some h1' \<and> take 8 h1 = take 8 h1' \<and>
    txHash (w1 ! 4) = Some h2 \<and> txHash (w2 ! 4) = Some h2' \<and> take 8 h2 = take 8 h2' \<longrightarrow>
      batchIdOf w1 = batchIdOf w2) \<and>
   (ledgerFile env = Content content \<and> length (lastFiveOf parseFloat content) = 5 \<and>
    batchIdOf (lastFiveOf parseFloat content) = Inr b \<and> b \<in> set (processedBatches s) \<longrightarrow>
      watchTradeFile parseFloat env s = s) \<and>
   (ledgerFile env1 = Content content1 \<and> length (lastFiveOf parseFloat content1) = 5 \<and>
    ledgerFile env2 = Content content2 \<and> length (lastFiveOf parseFloat content2) = 5 \<and>
    batchIdOf (lastFiveOf parseFloat content1) = Inr b \<and>
    batchIdOf (lastFiveOf parseFloat content2) = Inr b \<longrightarrow>
      watchTradeFile parseFloat env2 (watchTradeFile parseFloat env1 s) =
        watchTradeFile parseFloat env1 s)"
proof (intro conjI impI)
  assume "length w1 = 5 \<and> length w2 = 5 \<and>
    timestamp (w1 ! 0) = timestamp (w2 ! 0) \<and> timestamp (w1 ! 4) = timestamp (w2 ! 4) \<and>
    txHash (w1 ! 0) = Some h1 \<and> txHash (w2 ! 0) = Some h1' \<and> take 8 h1 = take 8 h1' \<and>
    txHash (w1 ! 4) = Some h2 \<and> txHash (w2 ! 4) = Some h2' \<and> take 8 h2 = take 8 h2'"
  then show "batchIdOf w1 = batchIdOf w2"
    by (intro batchIdOf_boundary [of w1 w2 h1 h1' h2 h2']) simp_all
next
  assume "ledgerFile env = Content content \<and> length (lastFiveOf parseFloat content) = 5 \<and>
    batchIdOf (lastFiveOf parseFloat content) = Inr b \<and> b \<in> set (processedBatches s)"
  then show "watchTradeFile parseFloat env s = s"
    by (simp add: step_seen)
next
  assume h: "ledgerFile env1 = Content content1 \<and> length (lastFiveOf parseFloat content1) = 5 \<and>
    ledgerFile env2 = Content content2 \<and> length (lastFiveOf parseFloat content2) = 5 \<and>
    batchIdOf (lastFiveOf parseFloat content1) = Inr b \<and>
    batchIdOf (lastFiveOf parseFloat content2) = Inr b"
  then have "windowId parseFloat env1 = Some b" by (simp add: windowId_Some)
  then have "b \<in> set (processedBatches (watchTradeFile parseFloat env1 s))"
    by (rule batch_recorded)
  then show "watchTradeFile parseFloat env2 (watchTradeFile parseFloat env1 s) =
      watchTradeFile parseFloat env1 s"
    using h by (intro step_seen [of env2 content2 parseFloat b]) simp_all
qed

lemma step_keeps_bound:
  "length (processedBatches s) \<le> 100 \<Longrightarrow>
   length (processedBatches (watchTradeFile parseFloat env s)) \<le> 100"
  by (simp add: batches_after_step length_trimBatches split: option.splits)

lemma run_keeps_bound:
  "length (processedBatches s) \<le> 100 \<Longrightarrow>
   length (processedBatches (watchRun parseFloat envs s)) \<le> 100"
  by (induction envs arbitrary: s) (simp_all add: step_keeps_bound)

text \<open>
  Claim C8. From the state at start-up, after any sequence of steps the seen set holds at
  most 100 identifiers, and a step keeps that bound. A step inserts the identifier of the
  window it is given, if that is new, and nothing else. An insertion into a set of fewer
  than 100 keeps all of them; an insertion into a set of 100 leaves the 50 most recently
  inserted: the last 49 of the old ones and the new one.
\<close>

theorem seen_set_is_bounded:
  "length (processedBatches (watchRun parseFloat envs initialState)) \<le> 100 \<and>
   (length (processedBatches s) \<le> 100 \<longrightarrow>
      length (processedBatches (watchTradeFile parseFloat env s)) \<le> 100) \<and>
   processedBatches (watchTradeFile parseFloat env s) =
     (case windowId parseFloat env of
        None \<Rightarrow> processedBatches s
      | Some b \<Rightarrow> if b \<in> set (processedBatches s) then processedBatches s
                  else trimBatches (processedBatches s @ [b])) \<and>
   (length xs < 100 \<longrightarrow> trimBatches (xs @ [b]) = xs @ [b]) \<and>
   (length xs = 100 \<longrightarrow>
      trimBatches (xs @ [b]) = drop 51 xs @ [b] \<and> length (trimBatches (xs @ [b])) = 50)"
proof (intro conjI impI)
  show "length (processedBatches (watchRun parseFloat envs initialState)) \<le> 100"
    by (rule run_keeps_bound) (simp add: initialState_def)
next
  assume "length (processedBatches s) \<le> 100"
  then show "length (processedBatches (watchTradeFile parseFloat env s)) \<le> 100"
    by (rule step_keeps_bound)
next
  show "processedBatches (watchTradeFile parseFloat env s) =
     (case windowId parseFloat env of
        None \<Rightarrow> processedBatches s
      | Some b \<Rightarrow> if b \<in> set (processedBatches s) then processedBatches s
                  else trimBatches (processedBatches s @ [b]))"
    by (rule batches_after_step)
next
  assume "length xs < 100"
  then show "trimBatches (xs @ [b]) = xs @ [b]" by (rule trimBatches_small)
next
  assume l: "length xs = 100"
  then show "trimBatches (xs @ [b]) = drop 51 xs @ [b]" by (rule trimBatches_full)
  show "length (trimBatches (xs @ [b])) = 50" using l by (simp add: trimBatches_def)
qed

lemma recentIn_member: "recentIn k b xs \<Longrightarrow> b \<in> set xs"
  by (auto simp add: recentIn_def dest: in_set_dropD)

lemma recentIn_Suc: "recentIn k b xs \<Longrightarrow> recentIn (Suc k) b xs"
proof -
  assume r: "recentIn k b xs"
  have "length xs - Suc k \<le> length xs - k" by simp
  then have "set (drop (length xs - k) xs) \<subseteq> set (drop (length xs - Suc k) xs)"
    by (rule set_drop_subset_set_drop)
  then show ?thesis using r by (auto simp add: recentIn_def)
qed

lemma recentIn_inserted: "recentIn (Suc 0) b (trimBatches (xs @ [b]))"
  by (simp add: recentIn_def trimBatches_def)

lemma recentIn_insert_other:
  assumes "recentIn k b xs" and "k < 50"
  shows "recentIn (Suc k) b (trimBatches (xs @ [c]))"
proof (cases "length (xs @ [c]) > 100")
  case False
  then have t: "trimBatches (xs @ [c]) = xs @ [c]" by (simp add: trimBatches_def)
  show ?thesis using assms(1) by (simp add: t recentIn_def)
next
  case True
  then have n: "length xs \<ge> 100" by simp
  have t: "trimBatches (xs @ [c]) = drop (length xs - 49) xs @ [c]"
    using True n by (simp add: trimBatches_def Suc_diff_le)
  have "drop (length (drop (length xs - 49) xs @ [c]) - Suc k) (drop (length xs - 49) xs @ [c]) =
      drop (length xs - k) xs @ [c]"
    using n assms(2) by simp
  then show ?thesis using assms(1) by (simp add: t recentIn_def)
qed

lemma recentIn_step:
  assumes "recentIn k b (processedBatches s)" and "k < 50"
  shows "recentIn (Suc k) b (processedBatches (watchTradeFile parseFloat env s))"
  using assms
  by (simp add: batches_after_step recentIn_Suc recentIn_insert_other split: option.splits)

lemma recentIn_run:
  "recentIn k b (processedBatches s) \<Longrightarrow> k + length envs \<le> 50 \<Longrightarrow>
   recentIn (k + length envs) b (processedBatches (watchRun parseFloat envs s))"
proof (induction envs arbitrary: s k)
  case Nil
  then show ?case by simp
next
  case (Cons env envs)
  have "recentIn (Suc k) b (processedBatches (watchTradeFile parseFloat env s))"
    using Cons.prems by (intro recentIn_step) simp_all
  then have "recentIn (Suc k + length envs) b
      (processedBatches (watchRun parseFloat envs (watchTradeFile parseFloat env s)))"
    using Cons.prems(2) by (intro Cons.IH) simp_all
  then show ?case by simp
qed

lemma seen_after_run:
  assumes "windowId parseFloat env = Some b" and "b \<notin> set (processedBatches s)"
    and "length envs < 50"
  shows "b \<in> set (processedBatches (watchRun parseFloat envs (watchTradeFile parseFloat env s)))"
proof -
  have "recentIn (Suc 0) b (processedBatches (watchTradeFile parseFloat env s))"
    using assms(1,2) by (simp add: batches_after_step recentIn_inserted)
  then have "recentIn (Suc 0 + length envs) b
      (processedBatches (watchRun parseFloat envs (watchTradeFile parseFloat env s)))"
    using assms(3) by (intro recentIn_run) simp_all
  then show ?thesis by (rule recentIn_member)
qed

text \<open>
  Claim C10, amended. No exception leaves \<open>executeTrade\<close>. For a new window of five, whatever the
  environment does, the identifier is in the seen set after the step, and further steps
  on the same ledger change nothing, so no second order is attempted; the same holds when
  the window comes back after up to 49 steps on any other ledgers. In particular, when
  the SDK call throws, the step logs the error of \<open>executeTrade\<close>, not that of
  \<open>watchTradeFile\<close>, and records the identifier; when the bonding curve account is
  absent, it logs that and records the identifier.
\<close>

theorem failed_counter_order_is_recorded:
  "fst (executeTrade env isBuy amount s) = None \<and>
   (ledgerFile env = Content content \<and> w = lastFiveOf parseFloat content \<and> length w = 5 \<and>
    batchIdOf w = Inr b \<and> b \<notin> set (processedBatches s) \<longrightarrow>
      b \<in> set (processedBatches (watchTradeFile parseFloat env s)) \<and>
      watchRun parseFloat (replicate n env) (watchTradeFile parseFloat env s) =
        watchTradeFile parseFloat env s \<and>
      (readyToTrade env s \<and> netVolumeOf w = Num v \<and> v > 0 \<and> sellPercentage env = Num p \<and>
       \<not> sdkResolves env (SdkSell (lamportsOf v p)) \<longrightarrow>
         watchTradeFile parseFloat env s =
           s\<lparr>sdkCalls := sdkCalls s @ [SdkSell (lamportsOf v p)],
             errorLog := errorLog s @
               [ErrorExecutingTrade False (OrderFailed (SdkSell (lamportsOf v p)))],
             processedBatches := trimBatches (processedBatches s @ [b])\<rparr>) \<and>
      (readyToTrade env s \<and> netVolumeOf w = Num v \<and> v < 0 \<and> buyPercentage env = Num p \<and>
       \<not> sdkResolves env (SdkBuy (lamportsOf \<bar>v\<bar> p)) \<longrightarrow>
         watchTradeFile parseFloat env s =
           s\<lparr>sdkCalls := sdkCalls s @ [SdkBuy (lamportsOf \<bar>v\<bar> p)],
             errorLog := errorLog s @
               [ErrorExecutingTrade True (OrderFailed (SdkBuy (lamportsOf \<bar>v\<bar> p)))],
             processedBatches := trimBatches (processedBatches s @ [b])\<rparr>) \<and>
      (\<not> isProcessingTrade s \<and> mintIsValid env \<and> bondingCurve env = CurveAbsent \<and>
       netVolumeOf w \<noteq> Num 0 \<longrightarrow>
         watchTradeFile parseFloat env s =
           s\<lparr>errorLog := errorLog s @ [BondingCurveNotFound],
             processedBatches := trimBatches (processedBatches s @ [b])\<rparr>) \<and>
      (length envs < 50 \<longrightarrow>
         watchTradeFile parseFloat env
           (watchRun parseFloat envs (watchTradeFile parseFloat env s)) =
         watchRun parseFloat envs (watchTradeFile parseFloat env s)))"
proof (intro conjI impI)
  show "fst (executeTrade env isBuy amount s) = None"
    by (rule executeTrade_never_throws)
next
  assume a: "ledgerFile env = Content content \<and> w = lastFiveOf parseFloat content \<and>
    length w = 5 \<and> batchIdOf w = Inr b \<and> b \<notin> set (processedBatches s)"
  have a': "ledgerFile env = Content content" "length (lastFiveOf parseFloat content) = 5"
    "batchIdOf (lastFiveOf parseFloat content) = Inr b" "b \<notin> set (processedBatches s)"
    "lastFiveOf parseFloat content = w"
    using a by auto
  have st: "watchTradeFile parseFloat env s =
      (counterTrade env (netVolumeOf w) s)
        \<lparr>processedBatches := trimBatches (processedBatches s @ [b])\<rparr>"
    using step_new [OF a'(1-4)] by (simp only: a'(5))
  have wid: "windowId parseFloat env = Some b" by (rule windowId_Some [OF a'(1-3)])
  show rec: "b \<in> set (processedBatches (watchTradeFile parseFloat env s))"
    using wid by (rule batch_recorded)
  show "watchRun parseFloat (replicate n env) (watchTradeFile parseFloat env s) =
      watchTradeFile parseFloat env s"
    by (rule step_twice [OF a'(1-3) rec])
  {
    assume f: "readyToTrade env s \<and> netVolumeOf w = Num v \<and> v > 0 \<and>
      sellPercentage env = Num p \<and> \<not> sdkResolves env (SdkSell (lamportsOf v p))"
    then have f': "readyToTrade env s" "netVolumeOf w = Num v" "v > 0"
      "sellPercentage env = Num p"
      "\<not> sdkResolves env (SdkSell (lamportsOf v p))"
      by blast+
    have pct: "(if False then buyPercentage env else sellPercentage env) = Num p"
      using f'(4) by simp
    have "snd (executeTrade env False (Num v) s) =
        s\<lparr>sdkCalls := sdkCalls s @ [SdkSell (lamportsOf v p)],
          errorLog := errorLog s @
            [ErrorExecutingTrade False (OrderFailed (SdkSell (lamportsOf v p)))]\<rparr>"
      by (rule executeTrade_order_fails [OF f'(1) pct _ f'(5)]) simp
    then have "counterTrade env (netVolumeOf w) s =
        s\<lparr>sdkCalls := sdkCalls s @ [SdkSell (lamportsOf v p)],
          errorLog := errorLog s @
            [ErrorExecutingTrade False (OrderFailed (SdkSell (lamportsOf v p)))]\<rparr>"
      by (simp only: f'(2) counterTrade_pos [OF f'(3)])
    then show "watchTradeFile parseFloat env s =
        s\<lparr>sdkCalls := sdkCalls s @ [SdkSell (lamportsOf v p)],
          errorLog := errorLog s @
            [ErrorExecutingTrade False (OrderFailed (SdkSell (lamportsOf v p)))],
          processedBatches := trimBatches (processedBatches s @ [b])\<rparr>"
      by (simp add: st)
  }
  {
    assume f: "readyToTrade env s \<and> netVolumeOf w = Num v \<and> v < 0 \<and>
      buyPercentage env = Num p \<and> \<not> sdkResolves env (SdkBuy (lamportsOf \<bar>v\<bar> p))"
    then have f': "readyToTrade env s" "netVolumeOf w = Num v" "v < 0"
      "buyPercentage env = Num p"
      "\<not> sdkResolves env (SdkBuy (lamportsOf \<bar>v\<bar> p))"
      by blast+
    have pct: "(if True then buyPercentage env else sellPercentage env) = Num p"
      using f'(4) by simp
    have "snd (executeTrade env True (Num \<bar>v\<bar>) s) =
        s\<lparr>sdkCalls := sdkCalls s @ [SdkBuy (lamportsOf \<bar>v\<bar> p)],
          errorLog := errorLog s @
            [ErrorExecutingTrade True (OrderFailed (SdkBuy (lamportsOf \<bar>v\<bar> p)))]\<rparr>"
      by (rule executeTrade_order_fails [OF f'(1) pct _ f'(5)]) simp
    then have "counterTrade env (netVolumeOf w) s =
        s\<lparr>sdkCalls := sdkCalls s @ [SdkBuy (lamportsOf \<bar>v\<bar> p)],
          errorLog := errorLog s @
            [ErrorExecutingTrade True (OrderFailed (SdkBuy (lamportsOf \<bar>v\<bar> p)))]\<rparr>"
      by (simp only: f'(2) counterTrade_neg [OF f'(3)])
    then show "watchTradeFile parseFloat env s =
        s\<lparr>sdkCalls := sdkCalls s @ [SdkBuy (lamportsOf \<bar>v\<bar> p)],
          errorLog := errorLog s @
            [ErrorExecutingTrade True (OrderFailed (SdkBuy (lamportsOf \<bar>v\<bar> p)))],
          processedBatches := trimBatches (processedBatches s @ [b])\<rparr>"
      by (simp add: st)
  }
  {
    assume f: "\<not> isProcessingTrade s \<and> mintIsValid env \<and> bondingCurve env = CurveAbsent \<and>
      netVolumeOf w \<noteq> Num 0"
    then have "counterTrade env (netVolumeOf w) s =
        s\<lparr>errorLog := errorLog s @ [BondingCurveNotFound]\<rparr>"
      by (simp add: counterTrade_def executeTrade_curve_absent)
    then show "watchTradeFile parseFloat env s =
        s\<lparr>errorLog := errorLog s @ [BondingCurveNotFound],
          processedBatches := trimBatches (processedBatches s @ [b])\<rparr>"
      by (simp add: st)
  }
  {
    assume "length envs < 50"
    then have "b \<in> set (processedBatches
        (watchRun parseFloat envs (watchTradeFile parseFloat env s)))"
      by (rule seen_after_run [OF wid a'(4)])
    then show "watchTradeFile parseFloat env
        (watchRun parseFloat envs (watchTradeFile parseFloat env s)) =
        watchRun parseFloat envs (watchTradeFile parseFloat env s)"
      by (rule step_seen [OF a'(1-3)])
  }
qed

subsection \<open>The market maker on a ledger the writer printed\<close>

lemma wf_examples_mm:
  "list_all wellFormedTrade zeroNetTrades" "list_all wellFormedTrade netBuyTrades"
  "list_all wellFormedTrade netSellTrades" "list_all wellFormedTrade fourTrades"
  "list_all wellFormedTrade sameBoundaryTrades"
  by (simp_all add: zeroNetTrades_def netBuyTrades_def netSellTrades_def fourTrades_def
      sameBoundaryTrades_def tradeAt_def ledgerTrade_def exampleTimes_def exampleHashes_def
      wellFormedTrade_def plainField_def comma_def newline_def)

lemma windows:
  "lastFiveOf parseFloat (csvContent zeroNetTrades) = map (numericTrade parseFloat) zeroNetTrades"
  "lastFiveOf parseFloat (csvContent netBuyTrades) = map (numericTrade parseFloat) netBuyTrades"
  "lastFiveOf parseFloat (csvContent netSellTrades) = map (numericTrade parseFloat) netSellTrades"
  "lastFiveOf parseFloat (csvContent fourTrades) = map (numericTrade parseFloat) fourTrades"
  "lastFiveOf parseFloat (csvContent sameBoundaryTrades) =
     map (numericTrade parseFloat) sameBoundaryTrades"
  by (simp_all add: window_of_csvContent wf_examples_mm)
     (simp_all add: zeroNetTrades_def netBuyTrades_def netSellTrades_def fourTrades_def
        sameBoundaryTrades_def)

lemma lengths:
  "length zeroNetTrades = 5" "length netBuyTrades = 5" "length netSellTrades = 5"
  "length fourTrades = 4" "length sameBoundaryTrades = 5"
  by (simp_all add: zeroNetTrades_def netBuyTrades_def netSellTrades_def fourTrades_def
        sameBoundaryTrades_def)

lemma netVolumes:
  "netVolumeOf (map (numericTrade parseFloatExample) zeroNetTrades) = Num 0"
  "netVolumeOf (map (numericTrade parseFloatExample) netBuyTrades) = Num 4"
  "netVolumeOf (map (numericTrade parseFloatExample) netSellTrades) = Num (- 4)"
  by (simp_all add: netVolumeOf_def addToNetVolume_def numericTrade_def zeroNetTrades_def
      netBuyTrades_def netSellTrades_def tradeAt_def ledgerTrade_def parseFloatOf_def
      parseFloatExample_def jsAdd_def jsNeg_def)

lemma batchIds:
  "batchIdOf (map (numericTrade parseFloat) zeroNetTrades) = Inr exampleBatchId"
  "batchIdOf (map (numericTrade parseFloat) netBuyTrades) = Inr exampleBatchId"
  "batchIdOf (map (numericTrade parseFloat) netSellTrades) = Inr exampleBatchId"
  "batchIdOf (map (numericTrade parseFloat) sameBoundaryTrades) = Inr exampleBatchId"
  by (simp_all add: batchIdOf_def numericTrade_def zeroNetTrades_def netBuyTrades_def
      netSellTrades_def sameBoundaryTrades_def tradeAt_def ledgerTrade_def exampleTimes_def
      exampleHashes_def templateText_def exampleBatchId_def)

lemma marketEnv_simps:
  "ledgerFile (marketEnv trades sdk curve) = Content (csvContent trades)"
  "buyPercentage (marketEnv trades sdk curve) = Num 0.5"
  "sellPercentage (marketEnv trades sdk curve) = Num 0.25"
  "mintIsValid (marketEnv trades sdk curve)"
  "bondingCurve (marketEnv trades sdk curve) = curve"
  "sdkResolves (marketEnv trades sdk curve) = sdk"
  by (simp_all add: marketEnv_def)

lemma initialState_simps:
  "processedBatches initialState = []" "\<not> isProcessingTrade initialState"
  "sdkCalls initialState = []" "errorLog initialState = []"
  by (simp_all add: initialState_def)

lemma wf_sevenTrades: "list_all wellFormedTrade sevenTrades"
  using wf_examples_mm(1)
  by (simp add: sevenTrades_def ledgerTrade_def wellFormedTrade_def plainField_def comma_def
      newline_def)

lemma ledgers:
  "ledgerTradesOf parseFloat (csvContent zeroNetTrades) =
     map (numericTrade parseFloat) zeroNetTrades"
  "ledgerTradesOf parseFloat (csvContent netBuyTrades) =
     map (numericTrade parseFloat) netBuyTrades"
  "ledgerTradesOf parseFloat (csvContent netSellTrades) =
     map (numericTrade parseFloat) netSellTrades"
  "ledgerTradesOf parseFloat (csvContent fourTrades) = map (numericTrade parseFloat) fourTrades"
  "ledgerTradesOf parseFloat (csvContent sevenTrades) =
     map (numericTrade parseFloat) sevenTrades"
  by (simp_all add: ledger_of_csvContent wf_examples_mm wf_sevenTrades)

lemma window_sevenTrades:
  "lastFiveOf parseFloat (csvContent sevenTrades) = map (numericTrade parseFloat) zeroNetTrades"
  by (simp add: window_of_csvContent wf_sevenTrades)
     (simp add: sevenTrades_def zeroNetTrades_def)

text \<open>Claim C4 on four ledgers: four records; seven records, of which the window is the
  last five, with net volume 0 (the amounts +1, -0.5, +0.5, -2, +1); net volume 4, answered
  by a sell of 4 * 0.25 SOL; net volume -4, answered by a buy of 4 * 0.5 SOL.\<close>

theorem batch_aggregator_decision_witness:
  "length (ledgerTradesOf parseFloatExample (csvContent fourTrades)) < 5 \<and>
   watchTradeFile parseFloatExample (marketEnv fourTrades sdkAccepts CurveFound) initialState =
     initialState \<and>
   list_all wellFormedTrade sevenTrades \<and>
   ledgerTradesOf parseFloatExample (csvContent sevenTrades) =
     map (numericTrade parseFloatExample) sevenTrades \<and>
   length (map (numericTrade parseFloatExample) sevenTrades) = 7 \<and>
   lastFiveOf parseFloatExample (csvContent sevenTrades) =
     drop 2 (map (numericTrade parseFloatExample) sevenTrades) \<and>
   lastFiveOf parseFloatExample (csvContent sevenTrades) =
     map (numericTrade parseFloatExample) zeroNetTrades \<and>
   netVolumeOf (lastFiveOf parseFloatExample (csvContent sevenTrades)) = Num 0 \<and>
   sum_list (map signedAmount (lastFiveOf parseFloatExample (csvContent sevenTrades))) = 0 \<and>
   watchTradeFile parseFloatExample (marketEnv sevenTrades sdkAccepts CurveFound) initialState =
     initialState\<lparr>processedBatches := [exampleBatchId]\<rparr> \<and>
   netVolumeOf (lastFiveOf parseFloatExample (csvContent netBuyTrades)) = Num 4 \<and>
   sdkCalls (watchTradeFile parseFloatExample (marketEnv netBuyTrades sdkAccepts CurveFound)
     initialState) = [SdkSell 1000000000] \<and>
   netVolumeOf (lastFiveOf parseFloatExample (csvContent netSellTrades)) = Num (- 4) \<and>
   sdkCalls (watchTradeFile parseFloatExample (marketEnv netSellTrades sdkAccepts CurveFound)
     initialState) = [SdkBuy 2000000000]"
proof -
  let ?pf = parseFloatExample
  have ready: "readyToTrade (marketEnv ts sdkAccepts CurveFound) initialState" for ts
    by (simp add: readyToTrade_def marketEnv_simps initialState_simps)
  have notnan: "list_all (\<lambda>trade. solAmount trade \<noteq> NaN) (map (numericTrade ?pf) zeroNetTrades)"
    by (simp add: numericTrade_def zeroNetTrades_def tradeAt_def ledgerTrade_def
        parseFloatOf_def parseFloatExample_def)
  have len7: "length sevenTrades = 7"
    by (simp add: sevenTrades_def lengths)
  note F = batch_aggregator_decision [where env = "marketEnv fourTrades sdkAccepts CurveFound"
      and content = "csvContent fourTrades" and parseFloat = ?pf and s = initialState
      and trades = "map (numericTrade ?pf) fourTrades"
      and w = "map (numericTrade ?pf) fourTrades", THEN mp,
      OF conjI [OF marketEnv_simps(1) conjI [OF ledgers(4) [symmetric] windows(4) [symmetric]]]]
  note Z = batch_aggregator_decision [where env = "marketEnv sevenTrades sdkAccepts CurveFound"
      and content = "csvContent sevenTrades" and parseFloat = ?pf and s = initialState
      and trades = "ledgerTradesOf ?pf (csvContent sevenTrades)"
      and records = sevenTrades
      and w = "map (numericTrade ?pf) zeroNetTrades" and b = exampleBatchId, THEN mp,
      OF conjI [OF marketEnv_simps(1) conjI [OF refl window_sevenTrades [symmetric]]]]
  note B = batch_aggregator_decision [where env = "marketEnv netBuyTrades sdkAccepts CurveFound"
      and content = "csvContent netBuyTrades" and parseFloat = ?pf and s = initialState
      and trades = "map (numericTrade ?pf) netBuyTrades"
      and w = "map (numericTrade ?pf) netBuyTrades" and b = exampleBatchId
      and v = 4 and p = "0.25", THEN mp,
      OF conjI [OF marketEnv_simps(1) conjI [OF ledgers(2) [symmetric] windows(2) [symmetric]]]]
  note S = batch_aggregator_decision [where env = "marketEnv netSellTrades sdkAccepts CurveFound"
      and content = "csvContent netSellTrades" and parseFloat = ?pf and s = initialState
      and trades = "map (numericTrade ?pf) netSellTrades"
      and w = "map (numericTrade ?pf) netSellTrades" and b = exampleBatchId
      and v = "- 4" and p = "0.5", THEN mp,
      OF conjI [OF marketEnv_simps(1) conjI [OF ledgers(3) [symmetric] windows(3) [symmetric]]]]
  note rest = conjunct2 [THEN conjunct2, THEN conjunct2]
  have f: "watchTradeFile ?pf (marketEnv fourTrades sdkAccepts CurveFound) initialState =
      initialState"
    using F [THEN rest, THEN conjunct1] by (simp add: lengths)
  have t7: "ledgerTradesOf ?pf (csvContent sevenTrades) = map (numericTrade ?pf) sevenTrades"
    using Z [THEN conjunct2, THEN conjunct2, THEN conjunct1] wf_sevenTrades by blast
  have w7: "drop 2 (map (numericTrade ?pf) sevenTrades) = map (numericTrade ?pf) zeroNetTrades"
  proof -
    have "length sevenTrades - 5 = 2" by (simp add: sevenTrades_def lengths)
    then show ?thesis using Z [THEN conjunct1] by (simp add: t7 del: drop_map)
  qed
  have zs: "sum_list (map signedAmount (map (numericTrade ?pf) zeroNetTrades)) = 0"
    using Z [THEN rest, THEN conjunct2, THEN conjunct1, rule_format, OF notnan]
    by (simp add: netVolumes)
  have new: "5 \<le> length (map (numericTrade ?pf) ts) \<and>
      batchIdOf (map (numericTrade ?pf) xs) = Inr exampleBatchId \<and>
      exampleBatchId \<notin> set (processedBatches initialState)"
    if "5 \<le> length ts" "batchIdOf (map (numericTrade ?pf) xs) = Inr exampleBatchId" for ts xs
    using that by (simp add: initialState_simps)
  have ge7: "5 \<le> length (ledgerTradesOf ?pf (csvContent sevenTrades)) \<and>
      batchIdOf (map (numericTrade ?pf) zeroNetTrades) = Inr exampleBatchId \<and>
      exampleBatchId \<notin> set (processedBatches initialState)"
    by (simp add: t7 len7 batchIds initialState_simps)
  have z: "watchTradeFile ?pf (marketEnv sevenTrades sdkAccepts CurveFound) initialState =
      initialState\<lparr>processedBatches := trimBatches (processedBatches initialState @ [exampleBatchId])\<rparr>"
    using Z [THEN rest, THEN conjunct2, THEN conjunct2, rule_format, OF ge7,
        THEN conjunct1, rule_format, OF netVolumes(1)] .
  have l5: "5 \<le> length netBuyTrades" "5 \<le> length netSellTrades"
    by (simp_all add: lengths)
  have b: "sdkCalls (watchTradeFile ?pf (marketEnv netBuyTrades sdkAccepts CurveFound)
      initialState) = sdkCalls initialState @ [SdkSell (lamportsOf 4 0.25)]"
    using B [THEN rest, THEN conjunct2, THEN conjunct2, rule_format,
        OF new [OF l5(1) batchIds(2)],
        THEN conjunct2, THEN conjunct1, rule_format, OF conjI [OF netVolumes(2)],
        THEN conjunct2, rule_format, OF _ conjI [OF ready marketEnv_simps(3)]]
    by simp
  have s: "sdkCalls (watchTradeFile ?pf (marketEnv netSellTrades sdkAccepts CurveFound)
      initialState) = sdkCalls initialState @ [SdkBuy (lamportsOf \<bar>- 4\<bar> 0.5)]"
    using S [THEN rest, THEN conjunct2, THEN conjunct2, rule_format,
        OF new [OF l5(2) batchIds(3)],
        THEN conjunct2, THEN conjunct2, rule_format, OF conjI [OF netVolumes(3)],
        THEN conjunct2, rule_format, OF _ conjI [OF ready marketEnv_simps(2)]]
    by simp
  show ?thesis
    unfolding windows window_sevenTrades ledgers
    using f zs z b s w7 wf_sevenTrades len7
    by (simp add: lengths netVolumes initialState_simps lamportsOf_def LAMPORTS_PER_SOL_def
        trimBatches_def)
qed

text \<open>Claim C7 on two different windows with one identifier.\<close>

theorem same_identity_is_suppressed_witness:
  "length (map (numericTrade parseFloatExample) zeroNetTrades) = 5 \<and>
   length (map (numericTrade parseFloatExample) sameBoundaryTrades) = 5 \<and>
   map (numericTrade parseFloatExample) zeroNetTrades \<noteq>
     map (numericTrade parseFloatExample) sameBoundaryTrades \<and>
   txHash (map (numericTrade parseFloatExample) zeroNetTrades ! 0) = Some ''sigAAAAA1111'' \<and>
   txHash (map (numericTrade parseFloatExample) sameBoundaryTrades ! 0) = Some ''sigAAAAA9999'' \<and>
   txHash (map (numericTrade parseFloatExample) zeroNetTrades ! 4) = Some ''sigEEEEE5555'' \<and>
   txHash (map (numericTrade parseFloatExample) sameBoundaryTrades ! 4) = Some ''sigEEEEE0000'' \<and>
   batchIdOf (map (numericTrade parseFloatExample) zeroNetTrades) =
     batchIdOf (map (numericTrade parseFloatExample) sameBoundaryTrades) \<and>
   exampleBatchId \<in> set (processedBatches (initialState\<lparr>processedBatches := [exampleBatchId]\<rparr>)) \<and>
   watchTradeFile parseFloatExample (marketEnv netBuyTrades sdkAccepts CurveFound)
     (initialState\<lparr>processedBatches := [exampleBatchId]\<rparr>) =
     initialState\<lparr>processedBatches := [exampleBatchId]\<rparr> \<and>
   watchTradeFile parseFloatExample (marketEnv sameBoundaryTrades sdkAccepts CurveFound)
     (watchTradeFile parseFloatExample (marketEnv zeroNetTrades sdkAccepts CurveFound)
        initialState) =
     watchTradeFile parseFloatExample (marketEnv zeroNetTrades sdkAccepts CurveFound)
       initialState"
proof -
  let ?pf = parseFloatExample
  let ?w1 = "map (numericTrade ?pf) zeroNetTrades"
  let ?w2 = "map (numericTrade ?pf) sameBoundaryTrades"
  have facts:
    "length ?w1 = 5" "length ?w2 = 5"
    "timestamp (?w1 ! 0) = timestamp (?w2 ! 0)" "timestamp (?w1 ! 4) = timestamp (?w2 ! 4)"
    "txHash (?w1 ! 0) = Some ''sigAAAAA1111''" "txHash (?w2 ! 0) = Some ''sigAAAAA9999''"
    "take 8 ''sigAAAAA1111'' = take 8 ''sigAAAAA9999''"
    "txHash (?w1 ! 4) = Some ''sigEEEEE5555''" "txHash (?w2 ! 4) = Some ''sigEEEEE0000''"
    "take 8 ''sigEEEEE5555'' = take 8 ''sigEEEEE0000''"
    by (simp_all add: numericTrade_def zeroNetTrades_def sameBoundaryTrades_def tradeAt_def
        ledgerTrade_def exampleTimes_def exampleHashes_def)
  have differ: "?w1 \<noteq> ?w2"
    by (simp add: numericTrade_def zeroNetTrades_def sameBoundaryTrades_def tradeAt_def
        ledgerTrade_def exampleTimes_def exampleHashes_def)
  note T = same_identity_is_suppressed [where ?w1.0 = ?w1 and ?w2.0 = ?w2
      and ?h1.0 = "''sigAAAAA1111''" and h1' = "''sigAAAAA9999''"
      and ?h2.0 = "''sigEEEEE5555''" and h2' = "''sigEEEEE0000''"
      and parseFloat = ?pf
      and env = "marketEnv netBuyTrades sdkAccepts CurveFound"
      and content = "csvContent netBuyTrades" and b = exampleBatchId
      and s = "initialState\<lparr>processedBatches := [exampleBatchId]\<rparr>"
      and ?env1.0 = "marketEnv zeroNetTrades sdkAccepts CurveFound"
      and ?content1.0 = "csvContent zeroNetTrades"
      and ?env2.0 = "marketEnv sameBoundaryTrades sdkAccepts CurveFound"
      and ?content2.0 = "csvContent sameBoundaryTrades"]
  have a: "batchIdOf ?w1 = batchIdOf ?w2"
    using T [THEN conjunct1] facts by blast
  have seen: "exampleBatchId \<in> set (processedBatches (initialState\<lparr>processedBatches := [exampleBatchId]\<rparr>))"
    by simp
  have b: "watchTradeFile ?pf (marketEnv netBuyTrades sdkAccepts CurveFound)
     (initialState\<lparr>processedBatches := [exampleBatchId]\<rparr>) =
     initialState\<lparr>processedBatches := [exampleBatchId]\<rparr>"
    using T [THEN conjunct2, THEN conjunct1] seen
    by (simp add: marketEnv_simps windows lengths batchIds)
  have c: "watchTradeFile ?pf (marketEnv sameBoundaryTrades sdkAccepts CurveFound)
     (watchTradeFile ?pf (marketEnv zeroNetTrades sdkAccepts CurveFound) initialState) =
     watchTradeFile ?pf (marketEnv zeroNetTrades sdkAccepts CurveFound) initialState"
    using same_identity_is_suppressed [where parseFloat = ?pf and b = exampleBatchId
        and s = initialState
        and ?env1.0 = "marketEnv zeroNetTrades sdkAccepts CurveFound"
        and ?content1.0 = "csvContent zeroNetTrades"
        and ?env2.0 = "marketEnv sameBoundaryTrades sdkAccepts CurveFound"
        and ?content2.0 = "csvContent sameBoundaryTrades", THEN conjunct2, THEN conjunct2]
    by (simp add: marketEnv_simps windows lengths batchIds)
  show ?thesis
    using facts differ a seen b c by blast
qed

lemma exampleBatchId_fresh: "exampleBatchId \<notin> set hundredBatches"
  by (auto simp add: hundredBatches_def exampleBatchId_def)

lemma length_hundredBatches: "length hundredBatches = 100"
  by (simp add: hundredBatches_def)

lemma windowId_zeroNet:
  "windowId parseFloatExample (marketEnv zeroNetTrades sdkAccepts CurveFound) = Some exampleBatchId"
  by (rule windowId_Some [where content = "csvContent zeroNetTrades"])
     (simp_all add: marketEnv_simps windows lengths batchIds)

text \<open>Claim C8 on a seen set of 100: the step leaves the last 49 and the new one.\<close>

theorem seen_set_is_bounded_witness:
  "length (processedBatches fullState) \<le> 100 \<and>
   length (processedBatches
     (watchTradeFile parseFloatExample (marketEnv zeroNetTrades sdkAccepts CurveFound)
        fullState)) \<le> 100 \<and>
   processedBatches
     (watchTradeFile parseFloatExample (marketEnv zeroNetTrades sdkAccepts CurveFound)
        fullState) = drop 51 hundredBatches @ [exampleBatchId] \<and>
   length [''earlier''] < 100 \<and>
   trimBatches ([''earlier''] @ [exampleBatchId]) = [''earlier'', exampleBatchId] \<and>
   length hundredBatches = 100 \<and>
   trimBatches (hundredBatches @ [exampleBatchId]) = drop 51 hundredBatches @ [exampleBatchId] \<and>
   length (trimBatches (hundredBatches @ [exampleBatchId])) = 50"
proof -
  let ?env = "marketEnv zeroNetTrades sdkAccepts CurveFound"
  note T = seen_set_is_bounded [where parseFloat = parseFloatExample and env = ?env
      and s = fullState and xs = hundredBatches and b = exampleBatchId]
  note U = seen_set_is_bounded [where xs = "[''earlier'']" and b = exampleBatchId]
  have l: "length (processedBatches fullState) \<le> 100"
    by (simp add: fullState_def length_hundredBatches)
  have a: "length (processedBatches (watchTradeFile parseFloatExample ?env fullState)) \<le> 100"
    using T [THEN conjunct2, THEN conjunct1] l by blast
  have full: "trimBatches (hundredBatches @ [exampleBatchId]) =
      drop 51 hundredBatches @ [exampleBatchId] \<and>
      length (trimBatches (hundredBatches @ [exampleBatchId])) = 50"
    using T [THEN conjunct2, THEN conjunct2, THEN conjunct2, THEN conjunct2]
      length_hundredBatches by blast
  have b: "processedBatches (watchTradeFile parseFloatExample ?env fullState) =
      drop 51 hundredBatches @ [exampleBatchId]"
    using T [THEN conjunct2, THEN conjunct2, THEN conjunct1] full exampleBatchId_fresh
    by (simp add: windowId_zeroNet fullState_def)
  have small: "trimBatches ([''earlier''] @ [exampleBatchId]) = [''earlier'', exampleBatchId]"
    using U [THEN conjunct2, THEN conjunct2, THEN conjunct2, THEN conjunct1] by simp
  show ?thesis
    using l a b small full length_hundredBatches by simp
qed

text \<open>Claim C10 with an SDK that throws on every order, and with an absent bonding curve
  account.\<close>

theorem failed_counter_order_is_recorded_witness:
  "fst (executeTrade (marketEnv netBuyTrades sdkRejects CurveFound) False (Num 4) initialState) =
     None \<and>
   \<not> sdkResolves (marketEnv netBuyTrades sdkRejects CurveFound) (SdkSell 1000000000) \<and>
   watchTradeFile parseFloatExample (marketEnv netBuyTrades sdkRejects CurveFound) initialState =
     initialState\<lparr>sdkCalls := [SdkSell 1000000000],
       errorLog := [ErrorExecutingTrade False (OrderFailed (SdkSell 1000000000))],
       processedBatches := [exampleBatchId]\<rparr> \<and>
   watchRun parseFloatExample (replicate 3 (marketEnv netBuyTrades sdkRejects CurveFound))
     (watchTradeFile parseFloatExample (marketEnv netBuyTrades sdkRejects CurveFound)
        initialState) =
     watchTradeFile parseFloatExample (marketEnv netBuyTrades sdkRejects CurveFound)
       initialState \<and>
   \<not> sdkResolves (marketEnv netSellTrades sdkRejects CurveFound) (SdkBuy 2000000000) \<and>
   watchTradeFile parseFloatExample (marketEnv netSellTrades sdkRejects CurveFound) initialState =
     initialState\<lparr>sdkCalls := [SdkBuy 2000000000],
       errorLog := [ErrorExecutingTrade True (OrderFailed (SdkBuy 2000000000))],
       processedBatches := [exampleBatchId]\<rparr> \<and>
   bondingCurve (marketEnv netSellTrades sdkAccepts CurveAbsent) = CurveAbsent \<and>
   watchTradeFile parseFloatExample (marketEnv netSellTrades sdkAccepts CurveAbsent)
     initialState =
     initialState\<lparr>errorLog := [BondingCurveNotFound],
       processedBatches := [exampleBatchId]\<rparr> \<and>
   length [marketEnv fourTrades sdkRejects CurveFound] < 50 \<and>
   watchTradeFile parseFloatExample (marketEnv netBuyTrades sdkRejects CurveFound)
     (watchRun parseFloatExample [marketEnv fourTrades sdkRejects CurveFound]
        (watchTradeFile parseFloatExample (marketEnv netBuyTrades sdkRejects CurveFound)
           initialState)) =
     watchRun parseFloatExample [marketEnv fourTrades sdkRejects CurveFound]
       (watchTradeFile parseFloatExample (marketEnv netBuyTrades sdkRejects CurveFound)
          initialState)"
proof -
  let ?pf = parseFloatExample
  let ?e1 = "marketEnv netBuyTrades sdkRejects CurveFound"
  let ?e2 = "marketEnv netSellTrades sdkRejects CurveFound"
  let ?e3 = "marketEnv netSellTrades sdkAccepts CurveAbsent"
  have ready: "readyToTrade (marketEnv ts sdk CurveFound) initialState" for ts sdk
    by (simp add: readyToTrade_def marketEnv_simps initialState_simps)
  have pre1: "ledgerFile ?e1 = Content (csvContent netBuyTrades) \<and>
      map (numericTrade ?pf) netBuyTrades = lastFiveOf ?pf (csvContent netBuyTrades) \<and>
      length (map (numericTrade ?pf) netBuyTrades) = 5 \<and>
      batchIdOf (map (numericTrade ?pf) netBuyTrades) = Inr exampleBatchId \<and>
      exampleBatchId \<notin> set (processedBatches initialState)"
    by (simp add: marketEnv_simps windows lengths batchIds initialState_simps)
  have pre2: "ledgerFile ?e2 = Content (csvContent netSellTrades) \<and>
      map (numericTrade ?pf) netSellTrades = lastFiveOf ?pf (csvContent netSellTrades) \<and>
      length (map (numericTrade ?pf) netSellTrades) = 5 \<and>
      batchIdOf (map (numericTrade ?pf) netSellTrades) = Inr exampleBatchId \<and>
      exampleBatchId \<notin> set (processedBatches initialState)"
    by (simp add: marketEnv_simps windows lengths batchIds initialState_simps)
  have pre3: "ledgerFile ?e3 = Content (csvContent netSellTrades) \<and>
      map (numericTrade ?pf) netSellTrades = lastFiveOf ?pf (csvContent netSellTrades) \<and>
      length (map (numericTrade ?pf) netSellTrades) = 5 \<and>
      batchIdOf (map (numericTrade ?pf) netSellTrades) = Inr exampleBatchId \<and>
      exampleBatchId \<notin> set (processedBatches initialState)"
    by (simp add: marketEnv_simps windows lengths batchIds initialState_simps)
  note T1 = failed_counter_order_is_recorded [where env = ?e1 and isBuy = False
      and amount = "Num 4" and s = initialState and content = "csvContent netBuyTrades"
      and w = "map (numericTrade ?pf) netBuyTrades" and parseFloat = ?pf
      and b = exampleBatchId and n = 3 and v = 4 and p = "0.25"]
  note T2 = failed_counter_order_is_recorded [where env = ?e2
      and s = initialState and content = "csvContent netSellTrades"
      and w = "map (numericTrade ?pf) netSellTrades" and parseFloat = ?pf
      and b = exampleBatchId and v = "- 4" and p = "0.5"]
  note T3 = failed_counter_order_is_recorded [where env = ?e3
      and s = initialState and content = "csvContent netSellTrades"
      and w = "map (numericTrade ?pf) netSellTrades" and parseFloat = ?pf
      and b = exampleBatchId]
  have a: "fst (executeTrade ?e1 False (Num 4) initialState) = None"
    using T1 [THEN conjunct1] .
  note R1 = T1 [THEN conjunct2, rule_format, OF pre1]
  note R2 = T2 [THEN conjunct2, rule_format, OF pre2]
  note R3 = T3 [THEN conjunct2, rule_format, OF pre3]
  have rej: "\<not> sdkResolves (marketEnv ts sdkRejects curve) call" for ts curve call
    by (simp add: marketEnv_simps sdkRejects_def)
  have b: "watchTradeFile ?pf ?e1 initialState =
      initialState\<lparr>sdkCalls := sdkCalls initialState @ [SdkSell (lamportsOf 4 0.25)],
        errorLog := errorLog initialState @
          [ErrorExecutingTrade False (OrderFailed (SdkSell (lamportsOf 4 0.25)))],
        processedBatches := trimBatches (processedBatches initialState @ [exampleBatchId])\<rparr>"
    using R1 [THEN conjunct2, THEN conjunct2, THEN conjunct1] ready [of netBuyTrades sdkRejects]
      netVolumes(2) rej [of netBuyTrades CurveFound]
    by (simp add: marketEnv_simps)
  have c: "watchRun ?pf (replicate 3 ?e1) (watchTradeFile ?pf ?e1 initialState) =
      watchTradeFile ?pf ?e1 initialState"
    using R1 [THEN conjunct2, THEN conjunct1] .
  have d: "watchTradeFile ?pf ?e2 initialState =
      initialState\<lparr>sdkCalls := sdkCalls initialState @ [SdkBuy (lamportsOf \<bar>- 4\<bar> 0.5)],
        errorLog := errorLog initialState @
          [ErrorExecutingTrade True (OrderFailed (SdkBuy (lamportsOf \<bar>- 4\<bar> 0.5)))],
        processedBatches := trimBatches (processedBatches initialState @ [exampleBatchId])\<rparr>"
    using R2 [THEN conjunct2, THEN conjunct2, THEN conjunct2, THEN conjunct1]
      ready [of netSellTrades sdkRejects] netVolumes(3) rej [of netSellTrades CurveFound]
    by (simp add: marketEnv_simps)
  have e: "watchTradeFile ?pf ?e3 initialState =
      initialState\<lparr>errorLog := errorLog initialState @ [BondingCurveNotFound],
        processedBatches := trimBatches (processedBatches initialState @ [exampleBatchId])\<rparr>"
    using R3 [THEN conjunct2, THEN conjunct2, THEN conjunct2, THEN conjunct2, THEN conjunct1]
      netVolumes(3)
    by (simp add: marketEnv_simps initialState_simps)
  have g: "watchTradeFile ?pf ?e1
      (watchRun ?pf [marketEnv fourTrades sdkRejects CurveFound]
         (watchTradeFile ?pf ?e1 initialState)) =
      watchRun ?pf [marketEnv fourTrades sdkRejects CurveFound]
        (watchTradeFile ?pf ?e1 initialState)"
    using T1 [where envs = "[marketEnv fourTrades sdkRejects CurveFound]", THEN conjunct2,
        rule_format, OF pre1, THEN conjunct2, THEN conjunct2, THEN conjunct2, THEN conjunct2,
        THEN conjunct2]
    by simp
  show ?thesis
    unfolding c g
    using a rej [of netBuyTrades CurveFound] rej [of netSellTrades CurveFound]
    by (simp add: b d e initialState_simps lamportsOf_def LAMPORTS_PER_SOL_def trimBatches_def
        marketEnv_simps)
qed

subsection \<open>A failed window that comes back after its identifier was trimmed\<close>

lemma digitChar_in: "digitChar d \<in> set ''0123456789''"
  unfolding digitChar_def by (rule nth_mem) simp

lemma digitChar_plain: "digitChar d \<noteq> comma" "digitChar d \<noteq> newline"
  using digitChar_in [of d] by (auto simp add: comma_def newline_def)

lemma digitChar_inj: "digitChar d = digitChar e \<Longrightarrow> d mod 10 = e mod 10"
proof -
  assume h: "digitChar d = digitChar e"
  have "distinct ''0123456789''" by simp
  moreover have "d mod 10 < length ''0123456789''" "e mod 10 < length ''0123456789''" by simp_all
  ultimately show ?thesis using h unfolding digitChar_def
    by (simp only: nth_eq_iff_index_eq)
qed

lemma digit2_inj:
  assumes "n < 100" and "m < 100" and "digit2 n = digit2 m"
  shows "n = m"
proof -
  have a: "(n div 10) mod 10 = (m div 10) mod 10" and b: "n mod 10 = m mod 10"
    using assms(3) by (auto simp add: digit2_def dest: digitChar_inj)
  have "n div 10 < 10" "m div 10 < 10" using assms(1,2) by simp_all
  then have "n div 10 = m div 10" using a by simp
  then show ?thesis using b by (metis div_mult_mod_eq)
qed

lemma otherBatchId_inj: "n < 100 \<Longrightarrow> m < 100 \<Longrightarrow> otherBatchId n = otherBatchId m \<Longrightarrow> n = m"
  by (rule digit2_inj) (simp_all add: otherBatchId_def otherTime_def)

lemma otherBatchId_not_example:
  "otherBatchId n \<noteq> exampleBatchId" "exampleBatchId \<noteq> otherBatchId n"
  by (simp_all add: otherBatchId_def otherTime_def exampleBatchId_def)

lemma wf_otherTrades: "list_all wellFormedTrade (otherTrades n)"
  by (simp add: otherTrades_def otherTime_def digit2_def tradeAt_def ledgerTrade_def
      exampleTimes_def exampleHashes_def wellFormedTrade_def plainField_def digitChar_plain
      digitChar_plain [symmetric])
     (simp add: comma_def newline_def)

lemma window_otherTrades:
  "lastFiveOf parseFloat (csvContent (otherTrades n)) =
     map (numericTrade parseFloat) (otherTrades n)"
  by (simp add: window_of_csvContent wf_otherTrades) (simp add: otherTrades_def)

lemma length_otherTrades: "length (otherTrades n) = 5"
  by (simp add: otherTrades_def)

lemma batchId_otherTrades:
  "batchIdOf (map (numericTrade parseFloat) (otherTrades n)) = Inr (otherBatchId n)"
  by (simp add: batchIdOf_def numericTrade_def otherTrades_def otherBatchId_def tradeAt_def
      ledgerTrade_def exampleTimes_def exampleHashes_def templateText_def)

lemma netVolume_otherTrades:
  "netVolumeOf (map (numericTrade parseFloatExample) (otherTrades n)) = Num 0"
  by (simp add: netVolumeOf_def addToNetVolume_def numericTrade_def otherTrades_def tradeAt_def
      ledgerTrade_def parseFloatOf_def parseFloatExample_def jsAdd_def jsNeg_def)

lemma other_step:
  "watchTradeFile parseFloatExample (otherEnv n) s =
     s\<lparr>processedBatches := insertBatch (processedBatches s) (otherBatchId n)\<rparr>"
proof (cases "otherBatchId n \<in> set (processedBatches s)")
  case True
  have "watchTradeFile parseFloatExample (otherEnv n) s = s"
    by (rule step_seen [where content = "csvContent (otherTrades n)" and b = "otherBatchId n"])
       (simp_all add: otherEnv_def marketEnv_simps window_otherTrades batchId_otherTrades True
          length_otherTrades)
  then show ?thesis using True by (simp add: insertBatch_def)
next
  case False
  have "watchTradeFile parseFloatExample (otherEnv n) s =
      (counterTrade (otherEnv n)
         (netVolumeOf (lastFiveOf parseFloatExample (csvContent (otherTrades n)))) s)
        \<lparr>processedBatches := trimBatches (processedBatches s @ [otherBatchId n])\<rparr>"
    by (rule step_new)
       (simp_all add: otherEnv_def marketEnv_simps window_otherTrades batchId_otherTrades False
          length_otherTrades)
  then show ?thesis using False
    by (simp add: window_otherTrades netVolume_otherTrades counterTrade_zero insertBatch_def)
qed

lemma other_run:
  "watchRun parseFloatExample (map otherEnv ns) s =
     s\<lparr>processedBatches := foldl insertBatch (processedBatches s) (map otherBatchId ns)\<rparr>"
  by (induction ns arbitrary: s) (simp_all add: other_step)

lemma insert_distinct:
  "distinct (xs @ bs) \<Longrightarrow> length xs + length bs \<le> 100 \<Longrightarrow>
   foldl insertBatch xs bs = xs @ bs"
proof (induction bs arbitrary: xs)
  case Nil
  then show ?case by simp
next
  case (Cons b bs)
  have "insertBatch xs b = xs @ [b]"
    using Cons.prems by (simp add: insertBatch_def trimBatches_def)
  moreover have "foldl insertBatch (xs @ [b]) bs = (xs @ [b]) @ bs"
    using Cons.prems by (intro Cons.IH) simp_all
  ultimately show ?case by simp
qed

lemma distinct_otherBatchIds: "n \<le> 100 \<Longrightarrow> distinct (exampleBatchId # map otherBatchId [0..<n])"
proof -
  assume n: "n \<le> 100"
  have "inj_on otherBatchId (set [0..<n])"
    using n by (auto intro!: inj_onI otherBatchId_inj)
  then have "distinct (map otherBatchId [0..<n])"
    by (simp add: distinct_map)
  moreover have "exampleBatchId \<notin> set (map otherBatchId [0..<n])"
    using otherBatchId_not_example by (auto simp del: upt_Suc)
  ultimately show ?thesis by simp
qed

lemma seen_after_hundred:
  "foldl insertBatch [exampleBatchId] (map otherBatchId [0..<100]) =
     drop 50 (map otherBatchId [0..<99]) @ [otherBatchId 99]"
proof -
  have split: "[0..<100] = [0..<99] @ [99]"
    using upt_Suc_append [of 0 99] by simp
  have first: "foldl insertBatch [exampleBatchId] (map otherBatchId [0..<99]) =
      [exampleBatchId] @ map otherBatchId [0..<99]"
  proof (rule insert_distinct)
    show "distinct ([exampleBatchId] @ map otherBatchId [0..<99])"
      using distinct_otherBatchIds [of 99] by (simp del: upt_Suc)
    show "length [exampleBatchId] + length (map otherBatchId [0..<99]) \<le> 100"
      by simp
  qed
  have new: "otherBatchId 99 \<notin> set (exampleBatchId # map otherBatchId [0..<99])"
    using distinct_otherBatchIds [of 100] unfolding split
    by (simp add: otherBatchId_not_example del: upt_Suc)
  have "insertBatch (exampleBatchId # map otherBatchId [0..<99]) (otherBatchId 99) =
      trimBatches ((exampleBatchId # map otherBatchId [0..<99]) @ [otherBatchId 99])"
    using new unfolding insertBatch_def by (simp only: if_False)
  also have "\<dots> = drop 51 (exampleBatchId # map otherBatchId [0..<99]) @ [otherBatchId 99]"
    by (rule trimBatches_full) simp
  also have "\<dots> = drop 50 (map otherBatchId [0..<99]) @ [otherBatchId 99]"
    by (simp del: upt_Suc drop_map)
  finally show ?thesis
    unfolding split by (simp add: first del: upt_Suc drop_map)
qed

lemma example_evicted:
  "exampleBatchId \<notin> set (foldl insertBatch [exampleBatchId] (map otherBatchId [0..<100]))"
proof -
  have "set (drop 50 (map otherBatchId [0..<99])) \<subseteq> set (map otherBatchId [0..<99])"
    by (rule set_drop_subset)
  then show ?thesis
    unfolding seen_after_hundred using otherBatchId_not_example
    by (auto simp del: upt_Suc drop_map)
qed

lemma failing_step:
  assumes idle: "\<not> isProcessingTrade s" and new: "exampleBatchId \<notin> set (processedBatches s)"
  shows "watchTradeFile parseFloatExample failingEnv s =
     s\<lparr>sdkCalls := sdkCalls s @ [SdkSell 1000000000],
       errorLog := errorLog s @ [ErrorExecutingTrade False (OrderFailed (SdkSell 1000000000))],
       processedBatches := trimBatches (processedBatches s @ [exampleBatchId])\<rparr>"
proof -
  have ready: "readyToTrade failingEnv s"
    using idle by (simp add: readyToTrade_def failingEnv_def marketEnv_simps)
  have lam: "lamportsOf 4 0.25 = 1000000000"
    by (simp add: lamportsOf_def LAMPORTS_PER_SOL_def)
  have sell: "sellPercentage failingEnv = Num 0.25"
    by (simp add: failingEnv_def marketEnv_simps)
  have rejects: "\<not> sdkResolves failingEnv (SdkSell (lamportsOf 4 0.25))"
    by (simp add: failingEnv_def marketEnv_simps sdkRejects_def)
  have order: "snd (executeTrade failingEnv False (Num 4) s) =
      s\<lparr>sdkCalls := sdkCalls s @ [SdkSell 1000000000],
        errorLog := errorLog s @ [ErrorExecutingTrade False (OrderFailed (SdkSell 1000000000))]\<rparr>"
    using executeTrade_order_fails [where env = failingEnv and s = s and isBuy = False
        and p = "0.25" and v = 4 and call = "SdkSell (lamportsOf 4 0.25)"] ready sell rejects
    by (simp only: if_False lam simp_thms)
  have "watchTradeFile parseFloatExample failingEnv s =
      (counterTrade failingEnv
         (netVolumeOf (lastFiveOf parseFloatExample (csvContent netBuyTrades))) s)
        \<lparr>processedBatches := trimBatches (processedBatches s @ [exampleBatchId])\<rparr>"
    by (rule step_new)
       (simp_all add: failingEnv_def marketEnv_simps windows batchIds lengths new)
  then show ?thesis
    by (simp add: windows netVolumes counterTrade_pos order)
qed

text \<open>
  Claim C10 as stated fails: the seen set is cut to its last 50 identifiers when an
  insertion takes it past 100. The step on the net-buy ledger with an SDK that throws
  sends one sell order, logs the failure and records the identifier; after steps on a
  hundred other ledgers the identifier is no longer in the seen set, and the step on the
  same window sends the sell order a second time.
\<close>

theorem second_attempt_after_eviction_counterexample:
  "sdkCalls (watchTradeFile parseFloatExample failingEnv initialState) = [SdkSell 1000000000] \<and>
   errorLog (watchTradeFile parseFloatExample failingEnv initialState) =
     [ErrorExecutingTrade False (OrderFailed (SdkSell 1000000000))] \<and>
   processedBatches (watchTradeFile parseFloatExample failingEnv initialState) =
     [exampleBatchId] \<and>
   length hundredOtherEnvs = 100 \<and>
   sdkCalls (watchRun parseFloatExample hundredOtherEnvs
      (watchTradeFile parseFloatExample failingEnv initialState)) = [SdkSell 1000000000] \<and>
   sdkCalls (watchTradeFile parseFloatExample failingEnv
      (watchRun parseFloatExample hundredOtherEnvs
         (watchTradeFile parseFloatExample failingEnv initialState))) =
     [SdkSell 1000000000, SdkSell 1000000000]"
proof -
  let ?s1 = "watchTradeFile parseFloatExample failingEnv initialState"
  let ?s2 = "watchRun parseFloatExample hundredOtherEnvs ?s1"
  have s1: "?s1 = initialState\<lparr>sdkCalls := [SdkSell 1000000000],
      errorLog := [ErrorExecutingTrade False (OrderFailed (SdkSell 1000000000))],
      processedBatches := [exampleBatchId]\<rparr>"
    by (simp add: failing_step initialState_simps trimBatches_def)
  have s2: "?s2 = ?s1\<lparr>processedBatches :=
      foldl insertBatch [exampleBatchId] (map otherBatchId [0..<100])\<rparr>"
    unfolding hundredOtherEnvs_def other_run by (simp add: s1)
  have idle: "\<not> isProcessingTrade ?s2"
    unfolding s2 by (simp add: s1 initialState_simps)
  have evicted: "exampleBatchId \<notin> set (processedBatches ?s2)"
    unfolding s2 using example_evicted by simp
  have calls: "sdkCalls ?s2 = [SdkSell 1000000000]"
    unfolding s2 by (simp add: s1)
  show ?thesis
    unfolding failing_step [OF idle evicted]
    by (simp add: calls) (simp add: s1 hundredOtherEnvs_def)
qed

end
